theory Spec2Isabelle
  imports Complex_Main "HOL-Library.AList"
begin

section \<open>Common types\<close>

text \<open>
  A Mongo ObjectId is an opaque identifier; only equality on it is ever used
  (\<^verbatim>\<open>equals\<close>, \<^verbatim>\<open>toString() ===\<close>), so it is a natural number here.  A JavaScript
  \<^verbatim>\<open>Date\<close> is its number of milliseconds since the epoch, which is what the
  comparisons and the subtraction of the source coerce it to.  Durations in minutes
  (\<^verbatim>\<open>workingHours\<close>, \<^verbatim>\<open>breakTime\<close>, \<^verbatim>\<open>overtime\<close>) are integers.
\<close>

type_synonym oid = nat
type_synonym date = int

text \<open>
  A handler answers with \<^verbatim>\<open>res.status(code).json({success: false, message})\<close> on a
  failure; a failure is the pair of the status code and the message.
\<close>

type_synonym failure = "nat \<times> string"

section \<open>models/Attendance.js\<close>

datatype att_type = CheckIn | CheckOut | BreakStart | BreakEnd

datatype recognition = FaceRecognition | Manual | AadhaarAssisted

datatype att_status = Pending | Approved | Rejected | AutoApproved

record face_image =
  filename :: string
  path :: string

record location =
  latitude :: "real option"
  longitude :: "real option"
  address :: "string option"

text \<open>
  The stored document of \<^verbatim>\<open>AttendanceSchema\<close>: one field per schema path, an optional
  path as an option.  \<^verbatim>\<open>faceConfidence\<close>, \<^verbatim>\<open>ipAddress\<close>, \<^verbatim>\<open>userAgent\<close> and
  \<^verbatim>\<open>deviceId\<close> are never written by the code modelled here and are left out, as are
  the \<^verbatim>\<open>createdAt\<close>/\<^verbatim>\<open>updatedAt\<close> timestamps.
\<close>

record attendance =
  att_id :: oid
  att_user :: oid
  att_organization :: "oid option"
  att_date :: date
  checkInTime :: date
  checkOutTime :: "date option"
  att_type :: att_type
  recognitionMethod :: recognition
  faceImage :: "face_image option"
  att_location :: "location option"
  att_status :: att_status
  att_approvedBy :: "oid option"
  att_approvedDate :: "date option"
  rejectionReason :: "string option"
  workingHours :: int
  breakTime :: int
  overtime :: int
  isOfflineEntry :: bool
  syncedAt :: "date option"
  att_notes :: "string option"
  adminNotes :: "string option"

text \<open>
  \<^verbatim>\<open>calculateWorkingHours(checkIn, checkOut, breakTime = 0)\<close>: \<^verbatim>\<open>checkOut\<close> is
  \<open>None\<close> when the caller passes \<^verbatim>\<open>null\<close> or \<^verbatim>\<open>undefined\<close> (a \<^verbatim>\<open>Date\<close> object is
  always truthy).  \<^verbatim>\<open>Math.floor\<close> of the quotient is \<open>div\<close> on integers, which
  rounds towards minus infinity as well.
\<close>

definition calculateWorkingHours :: "date \<Rightarrow> date option \<Rightarrow> int \<Rightarrow> int" where
  "calculateWorkingHours checkIn checkOut breakT =
     (case checkOut of
        None \<Rightarrow> 0
      | Some out \<Rightarrow>
          (let diffInMs = out - checkIn;
               totalMinutes = diffInMs div (1000 * 60)
           in max 0 (totalMinutes - breakT)))"

text \<open>
  \<^verbatim>\<open>markCheckOut(checkOutTime = new Date())\<close>: \<open>now\<close> is the clock, read when the
  caller leaves the argument out (\<open>None\<close>).  The method ends with \<^verbatim>\<open>this.save()\<close>;
  the document returned here is the one saved.
\<close>

definition markCheckOut :: "date \<Rightarrow> date option \<Rightarrow> attendance \<Rightarrow> attendance" where
  "markCheckOut now arg this =
     (let checkOutT = (case arg of None \<Rightarrow> now | Some t \<Rightarrow> t);
          this1 = this\<lparr>checkOutTime := Some checkOutT, att_type := CheckOut\<rparr>;
          totalMinutes = calculateWorkingHours (checkInTime this1) (Some checkOutT) (breakTime this1);
          this2 = this1\<lparr>workingHours := totalMinutes\<rparr>;
          standardWorkDay = 8 * 60
      in if totalMinutes > standardWorkDay
         then this2\<lparr>overtime := totalMinutes - standardWorkDay\<rparr>
         else this2)"

text \<open>A time of day on the first day of the epoch, in milliseconds.\<close>

definition at_time :: "int \<Rightarrow> int \<Rightarrow> date" where
  "at_time h m = (h * 60 + m) * 60 * 1000"

text \<open>An open check-in of user 7 of organization 3 at 09:00, as the schema's defaults leave it.\<close>

definition sample_check_in :: attendance where
  "sample_check_in =
     \<lparr>att_id = 1, att_user = 7, att_organization = Some 3, att_date = 0,
      checkInTime = at_time 9 0, checkOutTime = None, att_type = CheckIn,
      recognitionMethod = FaceRecognition, faceImage = None, att_location = None,
      att_status = AutoApproved, att_approvedBy = None, att_approvedDate = None,
      rejectionReason = None, workingHours = 0, breakTime = 0, overtime = 0,
      isOfflineEntry = False, syncedAt = None, att_notes = None, adminNotes = None\<rparr>"

section \<open>models/User.js\<close>

datatype role = Employee | Admin | Hr | SuperAdmin

record user_face_image =
  ufi_filename :: string
  ufi_cloudinaryUrl :: string
  ufi_cloudinaryPublicId :: string
  ufi_uploadDate :: date

text \<open>
  The stored document of \<^verbatim>\<open>UserSchema\<close>.  The name, employee id, designation, phone and
  Aadhaar paths play no part in the code modelled here and are left out.  A face
  descriptor is an array of numbers of which only the presence matters.
  \<^verbatim>\<open>loginAttempts\<close> is \<open>None\<close> when the path is absent from the stored document (after
  \<^verbatim>\<open>$unset\<close>); reading it through Mongoose then gives the schema's default 0.
\<close>

record user =
  user_id :: oid
  email :: string
  department :: string
  password :: string
  faceDescriptors :: "int list list"
  faceImages :: "user_face_image list"
  faceEnrolled :: bool
  faceEnrollmentAttempts :: int
  isActive :: bool
  isApproved :: bool
  approvedBy :: "oid option"
  approvedDate :: "date option"
  organization :: "oid option"
  resetPasswordToken :: "string option"
  resetPasswordExpires :: "date option"
  role :: role
  lastLogin :: "date option"
  loginAttempts :: "int option"
  lockUntil :: "date option"

text \<open>\<^verbatim>\<open>this.loginAttempts\<close> as the hydrated document reads it.\<close>

definition loginAttempts_read :: "user \<Rightarrow> int" where
  "loginAttempts_read u = (case loginAttempts u of None \<Rightarrow> 0 | Some n \<Rightarrow> n)"

text \<open>
  The virtual \<^verbatim>\<open>isLocked\<close>: \<^verbatim>\<open>!!(this.lockUntil && this.lockUntil > Date.now())\<close>.
  Each request reads the clock once here: \<open>now\<close>.
\<close>

definition isLocked :: "date \<Rightarrow> user \<Rightarrow> bool" where
  "isLocked now u = (case lockUntil u of None \<Rightarrow> False | Some l \<Rightarrow> l > now)"

text \<open>
  The collection is the list of its documents.  \<^verbatim>\<open>doc.updateOne(update)\<close> and the
  update that \<^verbatim>\<open>doc.save()\<close> sends for an existing document change the stored
  document with the document's \<^verbatim>\<open>_id\<close>; \<open>f\<close> is the change of the paths.
\<close>

definition updateOne :: "oid \<Rightarrow> (user \<Rightarrow> user) \<Rightarrow> user list \<Rightarrow> user list" where
  "updateOne uid f users = map (\<lambda>u. if user_id u = uid then f u else u) users"

definition User_findById :: "oid \<Rightarrow> user list \<Rightarrow> user option" where
  "User_findById uid users = find (\<lambda>u. user_id u = uid) users"

text \<open>
  The setters \<^verbatim>\<open>lowercase: true\<close> and \<^verbatim>\<open>trim: true\<close> of the \<^verbatim>\<open>email\<close> path, which Mongoose
  applies to a value it stores and to a value it casts for a query.  Strings are
  sequences of bytes here: the letters lowered are the ASCII ones, and the white space
  trimmed is tab, line feed, vertical tab, form feed, carriage return and space.
\<close>

definition toLowerCase :: "string \<Rightarrow> string" where
  "toLowerCase s =
     map (\<lambda>c. if 65 \<le> (of_char c :: nat) \<and> (of_char c :: nat) \<le> 90
              then char_of ((of_char c :: nat) + 32) else c) s"

definition is_space :: "char \<Rightarrow> bool" where
  "is_space c = ((9 \<le> (of_char c :: nat) \<and> (of_char c :: nat) \<le> 13) \<or> (of_char c :: nat) = 32)"

definition trim :: "string \<Rightarrow> string" where
  "trim s = rev (dropWhile is_space (rev (dropWhile is_space s)))"

definition cast_email :: "string \<Rightarrow> string" where
  "cast_email e = trim (toLowerCase e)"

text \<open>\<^verbatim>\<open>findOne({ email })\<close>: the first document whose email is the value as cast.\<close>

definition User_findOne_email :: "string \<Rightarrow> user list \<Rightarrow> user option" where
  "User_findOne_email e users = find (\<lambda>u. email u = cast_email e) users"

text \<open>
  Hydration puts the schema's default on a path that the stored document lacks, and
  \<^verbatim>\<open>save()\<close> writes such a path along with the modified ones.  Of the paths kept here
  only \<^verbatim>\<open>loginAttempts\<close> can be absent: \<open>this\<close> is the document as it was read, \<open>x\<close>
  the stored document that the save updates.
\<close>

definition written_defaults :: "user \<Rightarrow> user \<Rightarrow> user" where
  "written_defaults this x =
     (case loginAttempts this of None \<Rightarrow> x\<lparr>loginAttempts := Some 0\<rparr> | Some n \<Rightarrow> x)"

text \<open>
  \<^verbatim>\<open>$inc: { loginAttempts: 1 }\<close> sets an absent path to 1.
\<close>

definition inc_loginAttempts :: "user \<Rightarrow> user" where
  "inc_loginAttempts u =
     u\<lparr>loginAttempts := Some (case loginAttempts u of None \<Rightarrow> 1 | Some n \<Rightarrow> n + 1)\<rparr>"

text \<open>
  \<^verbatim>\<open>incLoginAttempts\<close>: \<open>this\<close> is the document as it was read, \<open>users\<close> the
  collection the update goes to.
\<close>

definition incLoginAttempts :: "date \<Rightarrow> user \<Rightarrow> user list \<Rightarrow> user list" where
  "incLoginAttempts now this users =
     (if (case lockUntil this of None \<Rightarrow> False | Some l \<Rightarrow> l < now)
      then updateOne (user_id this) (\<lambda>u. u\<lparr>lockUntil := None, loginAttempts := Some 1\<rparr>) users
      else if loginAttempts_read this + 1 \<ge> 5 \<and> \<not> isLocked now this
      then updateOne (user_id this)
             (\<lambda>u. (inc_loginAttempts u)\<lparr>lockUntil := Some (now + 2 * 60 * 60 * 1000)\<rparr>) users
      else updateOne (user_id this) inc_loginAttempts users)"

definition resetLoginAttempts :: "user \<Rightarrow> user list \<Rightarrow> user list" where
  "resetLoginAttempts this users =
     updateOne (user_id this) (\<lambda>u. u\<lparr>loginAttempts := None, lockUntil := None\<rparr>) users"

text \<open>The messages of the errors \<^verbatim>\<open>findByCredentials\<close> throws.\<close>

definition InvalidCredentials :: string where
  "InvalidCredentials = ''Invalid credentials''"

definition AccountLocked :: string where
  "AccountLocked = ''Account temporarily locked due to too many failed login attempts''"

text \<open>
  \<^verbatim>\<open>findByCredentials(email, password)\<close>.  \<open>cmp candidate hash\<close> stands for
  \<^verbatim>\<open>bcrypt.compare\<close>.  The result is the collection afterwards with either the message
  of the error thrown or the document returned.  The final \<^verbatim>\<open>save\<close> writes the one
  modified path, \<^verbatim>\<open>lastLogin\<close>, and the default of \<^verbatim>\<open>loginAttempts\<close> when hydration
  supplied it; the document returned is the one read at the start with \<^verbatim>\<open>lastLogin\<close>
  set.
\<close>

definition findByCredentials ::
  "(string \<Rightarrow> string \<Rightarrow> bool) \<Rightarrow> date \<Rightarrow> string \<Rightarrow> string \<Rightarrow> user list
     \<Rightarrow> user list \<times> (string + user)" where
  "findByCredentials cmp now e pw users =
     (case User_findOne_email e users of
        None \<Rightarrow> (users, Inl InvalidCredentials)
      | Some u \<Rightarrow>
          if isLocked now u then (users, Inl AccountLocked)
          else if \<not> cmp pw (password u)
          then (incLoginAttempts now u users, Inl InvalidCredentials)
          else
            (let users1 = (if loginAttempts_read u > 0 then resetLoginAttempts u users else users);
                 users2 = updateOne (user_id u)
                            (\<lambda>x. written_defaults u (x\<lparr>lastLogin := Some now\<rparr>)) users1
             in (users2, Inr (written_defaults u (u\<lparr>lastLogin := Some now\<rparr>)))))"

text \<open>
  A run of calls of \<^verbatim>\<open>findByCredentials\<close> with one email: each attempt is the time of
  the call and the password given.  The outcomes come back in the order of the
  attempts.
\<close>

fun credential_checks ::
  "(string \<Rightarrow> string \<Rightarrow> bool) \<Rightarrow> string \<Rightarrow> (date \<times> string) list \<Rightarrow> user list
     \<Rightarrow> user list \<times> (string + user) list" where
  "credential_checks cmp e [] users = (users, [])"
| "credential_checks cmp e ((t, pw) # rest) users =
     (case findByCredentials cmp t e pw users of
        (users1, r) \<Rightarrow>
          (case credential_checks cmp e rest users1 of (users2, rs) \<Rightarrow> (users2, r # rs)))"

text \<open>\<^verbatim>\<open>addFaceDescriptor(descriptor)\<close>; the document returned is the one saved.\<close>

definition addFaceDescriptor :: "int list \<Rightarrow> user \<Rightarrow> user" where
  "addFaceDescriptor descriptor this =
     (let this1 = this\<lparr>faceDescriptors := faceDescriptors this @ [descriptor]\<rparr>
      in if length (faceDescriptors this1) \<ge> 3 then this1\<lparr>faceEnrolled := True\<rparr> else this1)"

definition clearFaceData :: "user \<Rightarrow> user" where
  "clearFaceData this =
     this\<lparr>faceDescriptors := [], faceImages := [], faceEnrolled := False,
          faceEnrollmentAttempts := 0\<rparr>"

text \<open>
  \<^verbatim>\<open>createPasswordResetToken\<close>: \<open>resetToken\<close> is the hexadecimal string of the 32 random
  bytes, \<open>sha256\<close> stands for the SHA-256 digest in hexadecimal.  The method returns the
  token and leaves the hash and the expiry on the document.
\<close>

definition createPasswordResetToken ::
  "(string \<Rightarrow> string) \<Rightarrow> date \<Rightarrow> string \<Rightarrow> user \<Rightarrow> string \<times> user" where
  "createPasswordResetToken sha256 now resetToken this =
     (resetToken,
      this\<lparr>resetPasswordToken := Some (sha256 resetToken),
           resetPasswordExpires := Some (now + 10 * 60 * 1000)\<rparr>)"

text \<open>An account of organization 3 with the password hash \<open>#secret\<close> and no failed login.\<close>

definition sample_user :: user where
  "sample_user =
     \<lparr>user_id = 7, email = ''a@x.io'', department = ''ops'', password = ''#secret'',
      faceDescriptors = [], faceImages = [], faceEnrolled = False,
      faceEnrollmentAttempts = 0, isActive = True, isApproved = True, approvedBy = None,
      approvedDate = None, organization = Some 3, resetPasswordToken = None,
      resetPasswordExpires = None, role = Employee, lastLogin = None,
      loginAttempts = None, lockUntil = None\<rparr>"

text \<open>A stand-in for \<^verbatim>\<open>bcrypt\<close> in examples: the hash of \<open>p\<close> is \<open>#p\<close>.\<close>

definition sample_hash :: "string \<Rightarrow> string" where
  "sample_hash p = CHR ''#'' # p"



section \<open>controllers/AuthController.js\<close>

text \<open>
  \<^verbatim>\<open>enrollFace\<close>: \<open>file\<close> is \<^verbatim>\<open>req.file\<close>, \<open>descriptors\<close> the parsed
  \<^verbatim>\<open>req.body.faceDescriptors\<close> when it is an array (\<open>None\<close> when it is missing or not an
  array), \<open>this\<close> is \<^verbatim>\<open>req.user\<close>.  The document returned is the one saved.
\<close>

definition enrollFace ::
  "date \<Rightarrow> face_image option \<Rightarrow> int list option \<Rightarrow> user \<Rightarrow> failure + user" where
  "enrollFace now file descriptors this =
     (case file of
        None \<Rightarrow> Inl (400, ''Face image is required'')
      | Some f \<Rightarrow>
         (case descriptors of
            None \<Rightarrow> Inl (400, ''Face descriptors are required'')
          | Some d \<Rightarrow>
             (let faceImageData = \<lparr>ufi_filename = filename f, ufi_cloudinaryUrl = path f,
                                    ufi_cloudinaryPublicId = filename f, ufi_uploadDate = now\<rparr>;
                  this1 = this\<lparr>faceImages := faceImages this @ [faceImageData],
                              faceDescriptors := faceDescriptors this @ [d]\<rparr>
              in Inr (if length (faceDescriptors this1) \<ge> 1
                      then this1\<lparr>faceEnrolled := True\<rparr> else this1))))"

text \<open>
  A string of a request body that the handlers test with \<^verbatim>\<open>!x\<close>: missing and empty
  are both falsy.
\<close>

definition falsy :: "string option \<Rightarrow> bool" where
  "falsy x = (case x of None \<Rightarrow> True | Some s \<Rightarrow> s = [])"

text \<open>
  \<^verbatim>\<open>forgotPassword\<close>: \<open>resetToken\<close> is the random token drawn by
  \<^verbatim>\<open>createPasswordResetToken\<close>, \<open>mailFails\<close> tells whether sending the mail throws.
  The save writes the token, its expiry and the defaults that hydration supplied.  A
  success carries the token that was mailed.
\<close>

definition forgotPassword ::
  "(string \<Rightarrow> string) \<Rightarrow> date \<Rightarrow> string \<Rightarrow> bool \<Rightarrow> string option \<Rightarrow> user list
     \<Rightarrow> user list \<times> (failure + string)" where
  "forgotPassword sha256 now resetToken mailFails e users =
     (if falsy e then (users, Inl (400, ''Email is required''))
      else case User_findOne_email (the e) users of
        None \<Rightarrow> (users, Inl (404, ''No user found with that email address''))
      | Some u \<Rightarrow>
         (let users1 = updateOne (user_id u)
                         (\<lambda>x. written_defaults u
                                (snd (createPasswordResetToken sha256 now resetToken x))) users
          in if mailFails
             then (updateOne (user_id u)
                     (\<lambda>x. x\<lparr>resetPasswordToken := None, resetPasswordExpires := None\<rparr>) users1,
                   Inl (500, ''Email could not be sent. Please try again later.''))
             else (users1, Inr resetToken)))"

definition TokenInvalidOrExpired :: failure where
  "TokenInvalidOrExpired = (400, ''Token is invalid or has expired'')"

text \<open>
  The query of \<^verbatim>\<open>resetPassword\<close>:
  \<^verbatim>\<open>{ resetPasswordToken: hashedToken, resetPasswordExpires: { $gt: Date.now() } }\<close>.
\<close>

definition token_matches :: "string \<Rightarrow> date \<Rightarrow> user \<Rightarrow> bool" where
  "token_matches hashedToken now u =
     (resetPasswordToken u = Some hashedToken
      \<and> (case resetPasswordExpires u of None \<Rightarrow> False | Some ex \<Rightarrow> ex > now))"

text \<open>
  \<^verbatim>\<open>resetPassword\<close>: \<open>token\<close> is \<^verbatim>\<open>req.params.token\<close>, \<open>pw\<close> and \<open>confirm\<close> the two
  fields of the body, \<open>bhash\<close> the \<^verbatim>\<open>bcrypt\<close> hash that the pre-save hook applies when
  the password path is modified.  A success carries the saved document.
\<close>

definition resetPassword ::
  "(string \<Rightarrow> string) \<Rightarrow> (string \<Rightarrow> string) \<Rightarrow> date \<Rightarrow> string \<Rightarrow> string option
     \<Rightarrow> string option \<Rightarrow> user list \<Rightarrow> user list \<times> (failure + user)" where
  "resetPassword sha256 bhash now token pw confirm users =
     (if falsy pw \<or> falsy confirm
      then (users, Inl (400, ''Password and confirm password are required''))
      else if pw \<noteq> confirm then (users, Inl (400, ''Passwords do not match''))
      else if length (the pw) < 6
      then (users, Inl (400, ''Password must be at least 6 characters long''))
      else
        (let hashedToken = sha256 token
         in case find (token_matches hashedToken now) users of
              None \<Rightarrow> (users, Inl TokenInvalidOrExpired)
            | Some u \<Rightarrow>
               (let change = (\<lambda>x. x\<lparr>password := (if password x \<noteq> the pw then bhash (the pw)
                                                       else password x),
                                       resetPasswordToken := None,
                                       resetPasswordExpires := None,
                                       loginAttempts := Some 0,
                                       lockUntil := None\<rparr>)
                in (updateOne (user_id u) change users, Inr (change u)))))"

text \<open>The sample account holding the hash of the token \<open>t0k3n\<close>, issued at time 1000.\<close>

definition sample_user_with_token :: user where
  "sample_user_with_token =
     snd (createPasswordResetToken sample_hash 1000 ''t0k3n'' sample_user)"

definition sample_descriptor :: "int list" where
  "sample_descriptor = [1, 2, 3]"

definition sample_file :: face_image where
  "sample_file = \<lparr>filename = ''face-7'', path = ''https://img/face-7''\<rparr>"

section \<open>models/Organization.js\<close>

text \<open>
  The stored document of \<^verbatim>\<open>OrganizationSchema\<close>; the contact, settings, subscription and
  statistics paths play no part in the code modelled here and are left out.
\<close>

record organization =
  org_id :: oid
  org_name :: string
  org_type :: string
  org_description :: "string option"
  inviteCode :: "string option"
  org_isActive :: bool
  createdBy :: "oid option"

definition chars :: string where
  "chars = ''ABCDEFGHIJKLMNOPQRSTUVWXYZ0123456789''"

text \<open>\<^verbatim>\<open>s.charAt(k)\<close>: the empty string when \<open>k\<close> is out of range.\<close>

definition charAt :: "string \<Rightarrow> int \<Rightarrow> string" where
  "charAt s k = (if 0 \<le> k \<and> k < int (length s) then [s ! nat k] else [])"

text \<open>
  The loop of \<^verbatim>\<open>generateInviteCode\<close>.  \<open>rnd i\<close> is what \<^verbatim>\<open>Math.random()\<close> returns in
  round \<open>i\<close>, taken as a real number; the product and \<^verbatim>\<open>Math.floor\<close> are exact here.
\<close>

function invite_loop :: "(nat \<Rightarrow> real) \<Rightarrow> nat \<Rightarrow> string \<Rightarrow> string" where
  "invite_loop rnd i result =
     (if i < 8
      then invite_loop rnd (i + 1) (result @ charAt chars \<lfloor>rnd i * real (length chars)\<rfloor>)
      else result)"
  by pat_completeness auto
termination
  by (relation "measure (\<lambda>(rnd, i, result). 8 - i)") auto

declare invite_loop.simps [simp del]

definition generateInviteCode :: "(nat \<Rightarrow> real) \<Rightarrow> organization \<Rightarrow> string \<times> organization" where
  "generateInviteCode rnd this =
     (let result = invite_loop rnd 0 [] in (result, this\<lparr>inviteCode := Some result\<rparr>))"

section \<open>The document store\<close>

text \<open>The three collections, each the list of its documents.\<close>

record db =
  db_users :: "user list"
  db_attendances :: "attendance list"
  db_organizations :: "organization list"

text \<open>
  What a request reads from its surroundings: the clock, the offset of the server's
  local time from UTC in milliseconds (taken as fixed), and the ObjectId that the driver
  gives a new document.
\<close>

record env =
  env_now :: date
  env_tz :: int
  env_newId :: oid

text \<open>
  \<^verbatim>\<open>new Date(d.getFullYear(), d.getMonth(), d.getDate())\<close>: the local midnight that
  starts the day of \<open>t\<close>.
\<close>

definition startOfDay :: "int \<Rightarrow> date \<Rightarrow> date" where
  "startOfDay tz t = t - (t + tz) mod (24 * 60 * 60 * 1000)"

text \<open>
  \<^verbatim>\<open>a.equals(b)\<close> on ObjectIds, \<open>a\<close> present: false when \<open>b\<close> is missing.
\<close>

definition equals :: "oid \<Rightarrow> oid option \<Rightarrow> bool" where
  "equals a b = (case b of None \<Rightarrow> False | Some b' \<Rightarrow> a = b')"

definition Attendance_findById :: "oid \<Rightarrow> attendance list \<Rightarrow> attendance option" where
  "Attendance_findById i atts = find (\<lambda>a. att_id a = i) atts"

definition Organization_findById :: "oid \<Rightarrow> organization list \<Rightarrow> organization option" where
  "Organization_findById i orgs = find (\<lambda>g. org_id g = i) orgs"

section \<open>controllers/AttendanceController.js\<close>

text \<open>
  What a client can send where the schema expects a date: something Joi converts to a
  date, or something it does not.
\<close>

datatype date_input = ValidDate date | InvalidDate

text \<open>
  The body of \<^verbatim>\<open>POST /attendance/mark\<close> with the keys of \<^verbatim>\<open>markAttendanceSchema\<close>, and
  \<^verbatim>\<open>req.file\<close>.  An optional key that is missing is \<open>None\<close>; \<^verbatim>\<open>isOffline\<close> has its
  default \<^verbatim>\<open>false\<close> when it is missing.  A body with a key that the schema does not
  know, or with a value that Joi cannot bring to the schema's type, is refused by Joi
  as well and has no counterpart in this record.
\<close>

record mark_request =
  req_type :: att_type
  req_location :: "location option"
  req_note :: "string option"
  req_isOffline :: bool
  req_offlineTimestamp :: "date_input option"
  req_file :: "face_image option"

text \<open>
  \<^verbatim>\<open>Joi.string().max(n).optional()\<close>: a string that is present is not empty and has at
  most \<open>n\<close> characters.
\<close>

definition joi_string_max :: "nat \<Rightarrow> string option \<Rightarrow> bool" where
  "joi_string_max n v = (case v of None \<Rightarrow> True | Some x \<Rightarrow> x \<noteq> [] \<and> length x \<le> n)"

text \<open>\<^verbatim>\<open>Joi.number().min(lo).max(hi).optional()\<close>.\<close>

definition joi_number_range :: "real \<Rightarrow> real \<Rightarrow> real option \<Rightarrow> bool" where
  "joi_number_range lo hi v = (case v of None \<Rightarrow> True | Some x \<Rightarrow> lo \<le> x \<and> x \<le> hi)"

text \<open>
  \<^verbatim>\<open>markAttendanceSchema.validate(req.body)\<close> reports no error: the type is one of
  \<^verbatim>\<open>check-in\<close> and \<^verbatim>\<open>check-out\<close>, the coordinates are in range, the address and the
  note are within 500 characters, and the offline timestamp is a date.
\<close>

definition markAttendanceSchema_valid :: "mark_request \<Rightarrow> bool" where
  "markAttendanceSchema_valid r =
     ((req_type r = CheckIn \<or> req_type r = CheckOut)
      \<and> (case req_location r of
            None \<Rightarrow> True
          | Some l \<Rightarrow> joi_number_range (- 90) 90 (latitude l)
                     \<and> joi_number_range (- 180) 180 (longitude l)
                     \<and> joi_string_max 500 (address l))
      \<and> joi_string_max 500 (req_note r)
      \<and> req_offlineTimestamp r \<noteq> Some InvalidDate)"

text \<open>
  \<^verbatim>\<open>isOffline && offlineTimestamp ? new Date(offlineTimestamp) : new Date()\<close> on the
  validated body.
\<close>

definition request_time :: "env \<Rightarrow> mark_request \<Rightarrow> date" where
  "request_time e r =
     (case (if req_isOffline r then req_offlineTimestamp r else None) of
        Some (ValidDate t) \<Rightarrow> t
      | Some InvalidDate \<Rightarrow> env_now e
      | None \<Rightarrow> env_now e)"

definition NotApproved :: failure where
  "NotApproved = (403, ''Account not approved yet. Please contact your admin.'')"

definition AccountInactive :: failure where
  "AccountInactive = (403, ''Account is inactive. Please contact your admin.'')"

definition AlreadyCheckedIn :: failure where
  "AlreadyCheckedIn = (400, ''You are already checked in. Please check out first.'')"

definition NoOpenCheckIn :: failure where
  "NoOpenCheckIn = (400, ''You need to check in first before checking out.'')"

text \<open>
  The query for today's records of a user:
  \<^verbatim>\<open>find({user, checkInTime: {$gte: startOfDay, $lt: endOfDay}}).sort({checkInTime: -1})\<close>.
  The sort is the stable one here; Mongo leaves the order of records of equal time open,
  and the handler reads only the times of the records it picks.
\<close>

definition in_today :: "env \<Rightarrow> oid \<Rightarrow> attendance \<Rightarrow> bool" where
  "in_today e uid a =
     (let startOfDay' = startOfDay (env_tz e) (env_now e);
          endOfDay = startOfDay' + 24 * 60 * 60 * 1000
      in att_user a = uid \<and> startOfDay' \<le> checkInTime a \<and> checkInTime a < endOfDay)"

definition existingAttendance :: "env \<Rightarrow> oid \<Rightarrow> attendance list \<Rightarrow> attendance list" where
  "existingAttendance e uid atts =
     sort_key (\<lambda>a. - checkInTime a) (filter (in_today e uid) atts)"

text \<open>
  \<^verbatim>\<open>new Attendance({user, organization, type, checkInTime, location, note, isOffline,
  faceImage})\<close>: the paths given, the schema's defaults for the others.  \<^verbatim>\<open>note\<close> and
  \<^verbatim>\<open>isOffline\<close> are no paths of the schema (which has \<^verbatim>\<open>notes\<close> and \<^verbatim>\<open>isOfflineEntry\<close>),
  and of the image the schema keeps \<^verbatim>\<open>filename\<close> and \<^verbatim>\<open>path\<close>.
\<close>

definition new_Attendance :: "env \<Rightarrow> user \<Rightarrow> mark_request \<Rightarrow> attendance" where
  "new_Attendance e u r =
     \<lparr>att_id = env_newId e,
      att_user = user_id u,
      att_organization = organization u,
      att_date = startOfDay (env_tz e) (env_now e),
      checkInTime = request_time e r,
      checkOutTime = None,
      att_type = req_type r,
      recognitionMethod = FaceRecognition,
      faceImage = req_file r,
      att_location = req_location r,
      att_status = AutoApproved,
      att_approvedBy = None,
      att_approvedDate = None,
      rejectionReason = None,
      workingHours = 0,
      breakTime = 0,
      overtime = 0,
      isOfflineEntry = False,
      syncedAt = None,
      att_notes = None,
      adminNotes = None\<rparr>"

text \<open>
  \<^verbatim>\<open>save()\<close> of a new attendance document: validation refuses a document without the
  required \<^verbatim>\<open>organization\<close> (the error is thrown), the pre-save hook sets \<^verbatim>\<open>date\<close> from
  \<^verbatim>\<open>checkInTime\<close>, and the document is inserted.
\<close>

definition save_new_attendance ::
  "env \<Rightarrow> attendance \<Rightarrow> attendance list \<Rightarrow> (attendance list \<times> attendance) option" where
  "save_new_attendance e a atts =
     (case att_organization a of
        None \<Rightarrow> None
      | Some g \<Rightarrow>
         (let a' = a\<lparr>att_date := startOfDay (env_tz e) (checkInTime a)\<rparr>
          in Some (atts @ [a'], a')))"

text \<open>
  \<^verbatim>\<open>markAttendance\<close>: \<open>u\<close> is \<^verbatim>\<open>req.user\<close>.  An error thrown inside the handler is
  answered with status 500.  The last step, \<^verbatim>\<open>user.save()\<close>, writes \<^verbatim>\<open>lastLogin\<close> and
  the defaults that hydration supplied.
\<close>

definition markAttendance ::
  "env \<Rightarrow> user \<Rightarrow> mark_request \<Rightarrow> db \<Rightarrow> db \<times> (failure + attendance)" where
  "markAttendance e u r d =
     (if \<not> markAttendanceSchema_valid r
      then (d, Inl (400, ''Validation error''))
      else if \<not> isApproved u then (d, Inl NotApproved)
      else if \<not> isActive u then (d, Inl AccountInactive)
      else
        (let existing = existingAttendance e (user_id u) (db_attendances d);
             lastCheckIn = find (\<lambda>att. att_type att = CheckIn) existing;
             lastCheckOut = find (\<lambda>att. att_type att = CheckOut) existing
         in if req_type r = CheckIn
               \<and> (case lastCheckIn of
                     None \<Rightarrow> False
                   | Some ci \<Rightarrow> (case lastCheckOut of
                                  None \<Rightarrow> True
                                | Some co \<Rightarrow> checkInTime co < checkInTime ci))
            then (d, Inl AlreadyCheckedIn)
            else if req_type r = CheckOut
               \<and> (case lastCheckIn of
                     None \<Rightarrow> True
                   | Some ci \<Rightarrow> (case lastCheckOut of
                                  None \<Rightarrow> False
                                | Some co \<Rightarrow> checkInTime co > checkInTime ci))
            then (d, Inl NoOpenCheckIn)
            else
              (let attendance0 = new_Attendance e u r;
                   attendance1 = (if req_type r = CheckOut
                                  then attendance0\<lparr>checkOutTime := Some (checkInTime attendance0)\<rparr>
                                  else attendance0)
               in case save_new_attendance e attendance1 (db_attendances d) of
                    None \<Rightarrow> (d, Inl (500, ''Failed to mark attendance''))
                  | Some (atts', saved) \<Rightarrow>
                      (d\<lparr>db_attendances := atts',
                         db_users := updateOne (user_id u)
                                       (\<lambda>x. written_defaults u (x\<lparr>lastLogin := Some (env_now e)\<rparr>))
                                       (db_users d)\<rparr>,
                       Inr saved))))"

text \<open>
  A value that the handlers put on a document under a name that is no path of its
  schema.
\<close>

datatype js_value = JString string | JBool bool | JObjectId oid | JDate date

text \<open>
  A hydrated attendance document: the schema's paths, and the properties set on the
  object that are no paths of \<^verbatim>\<open>AttendanceSchema\<close>.  Mongoose tracks and saves the paths
  of the schema only, so \<^verbatim>\<open>save()\<close> sends the changes of \<open>doc_paths\<close> and nothing of
  \<open>doc_props\<close>.
\<close>

record attendance_doc =
  doc_paths :: attendance
  doc_props :: "(string \<times> js_value) list"

definition set_prop :: "string \<Rightarrow> js_value \<Rightarrow> attendance_doc \<Rightarrow> attendance_doc" where
  "set_prop k v doc = doc\<lparr>doc_props := AList.update k v (doc_props doc)\<rparr>"

text \<open>
  \<^verbatim>\<open>doc.save()\<close> of an attendance document that was read from the collection: the
  stored document with its \<^verbatim>\<open>_id\<close> gets the paths of the schema as the document now
  has them.
\<close>

definition save_attendance :: "attendance_doc \<Rightarrow> attendance list \<Rightarrow> attendance list" where
  "save_attendance doc atts =
     map (\<lambda>a. if att_id a = att_id (doc_paths doc) then doc_paths doc else a) atts"

text \<open>
  \<^verbatim>\<open>updateAttendance\<close>: \<open>actor\<close> is \<^verbatim>\<open>req.user\<close>, \<open>note\<close> and \<open>isApprovedB\<close> the two
  fields read from the body (\<open>None\<close> for \<^verbatim>\<open>undefined\<close>).  \<^verbatim>\<open>note\<close>, \<^verbatim>\<open>isApproved\<close>,
  \<^verbatim>\<open>modifiedBy\<close> and \<^verbatim>\<open>modifiedAt\<close> are no paths of \<^verbatim>\<open>AttendanceSchema\<close>.
  \<^verbatim>\<open>req.user.organization.equals\<close> throws when the actor has no organization.
\<close>

definition updateAttendance ::
  "env \<Rightarrow> user \<Rightarrow> oid \<Rightarrow> js_value option \<Rightarrow> js_value option \<Rightarrow> db
     \<Rightarrow> db \<times> (failure + attendance_doc)" where
  "updateAttendance e actor i note isApprovedB d =
     (case Attendance_findById i (db_attendances d) of
        None \<Rightarrow> (d, Inl (404, ''Attendance record not found''))
      | Some a \<Rightarrow>
         (if role actor = Admin \<and> organization actor = None
          then (d, Inl (500, ''Failed to update attendance record''))
          else if role actor = Admin \<and> \<not> equals (the (organization actor)) (att_organization a)
          then (d, Inl (403, ''You can only modify attendance records in your organization''))
          else
            (let doc0 = \<lparr>doc_paths = a, doc_props = []\<rparr>;
                 doc1 = (case note of None \<Rightarrow> doc0 | Some v \<Rightarrow> set_prop ''note'' v doc0);
                 doc2 = (case isApprovedB of None \<Rightarrow> doc1
                         | Some v \<Rightarrow> set_prop ''isApproved'' v doc1);
                 doc3 = set_prop ''modifiedBy'' (JObjectId (user_id actor)) doc2;
                 doc4 = set_prop ''modifiedAt'' (JDate (env_now e)) doc3
             in (d\<lparr>db_attendances := save_attendance doc4 (db_attendances d)\<rparr>, Inr doc4))))"

text \<open>\<^verbatim>\<open>findByIdAndDelete\<close>: the document with the id leaves the collection.\<close>

definition Attendance_findByIdAndDelete :: "oid \<Rightarrow> attendance list \<Rightarrow> attendance list" where
  "Attendance_findByIdAndDelete i atts =
     (case Attendance_findById i atts of None \<Rightarrow> atts | Some a \<Rightarrow> remove1 a atts)"

definition deleteAttendance :: "user \<Rightarrow> oid \<Rightarrow> db \<Rightarrow> db \<times> (failure + string)" where
  "deleteAttendance actor i d =
     (case Attendance_findById i (db_attendances d) of
        None \<Rightarrow> (d, Inl (404, ''Attendance record not found''))
      | Some a \<Rightarrow>
         (if role actor = Admin \<and> organization actor = None
          then (d, Inl (500, ''Failed to delete attendance record''))
          else if role actor = Admin \<and> \<not> equals (the (organization actor)) (att_organization a)
          then (d, Inl (403, ''You can only delete attendance records in your organization''))
          else (d\<lparr>db_attendances := Attendance_findByIdAndDelete i (db_attendances d)\<rparr>,
                Inr ''Attendance record deleted successfully'')))"

section \<open>The day's state of a user, in the words of the specification\<close>

text \<open>
  The definitions of this section follow the specification, not the code: the state of
  a user on a day is read off that day's events; the time of an event is its
  \<^verbatim>\<open>checkInTime\<close>; \<open>lastCheckIn\<close> is the most recent check-in of the day and
  \<open>lastCheckOut\<close> the most recent check-out.
\<close>

definition todays_events :: "env \<Rightarrow> oid \<Rightarrow> attendance list \<Rightarrow> attendance list" where
  "todays_events e uid atts = filter (in_today e uid) atts"

definition times_of :: "att_type \<Rightarrow> attendance list \<Rightarrow> date list" where
  "times_of ty evs = map checkInTime (filter (\<lambda>a. att_type a = ty) evs)"

text \<open>
  An open check-in exists: there is a check-in, and there is no check-out or the most
  recent check-out is earlier than the most recent check-in.
\<close>

definition open_check_in_exists :: "attendance list \<Rightarrow> bool" where
  "open_check_in_exists today =
     (times_of CheckIn today \<noteq> []
      \<and> (times_of CheckOut today = []
         \<or> Max (set (times_of CheckOut today)) < Max (set (times_of CheckIn today))))"

text \<open>
  Nothing to check out of: there is no check-in, or a check-out later than the most
  recent check-in closes it.
\<close>

definition nothing_to_check_out :: "attendance list \<Rightarrow> bool" where
  "nothing_to_check_out today =
     (times_of CheckIn today = []
      \<or> (times_of CheckOut today \<noteq> []
         \<and> Max (set (times_of CheckOut today)) > Max (set (times_of CheckIn today))))"

text \<open>Sample data: a clock at 10:00 of the first day in UTC, and two requests.\<close>

definition sample_env :: env where
  "sample_env = \<lparr>env_now = at_time 10 0, env_tz = 0, env_newId = 2\<rparr>"

definition check_in_request :: mark_request where
  "check_in_request =
     \<lparr>req_type = CheckIn, req_location = None, req_note = None, req_isOffline = False,
      req_offlineTimestamp = None, req_file = None\<rparr>"

definition check_out_request :: mark_request where
  "check_out_request = check_in_request\<lparr>req_type := CheckOut\<rparr>"

text \<open>A note of 501 characters, one more than the request schema admits.\<close>

definition long_note :: string where
  "long_note = replicate 501 (CHR ''x'')"

definition empty_db :: db where
  "empty_db = \<lparr>db_users = [sample_user], db_attendances = [], db_organizations = []\<rparr>"

definition checked_in_db :: db where
  "checked_in_db = \<lparr>db_users = [sample_user], db_attendances = [sample_check_in], db_organizations = []\<rparr>"

section \<open>controllers/UserController.js\<close>

text \<open>The action of the body, as \<^verbatim>\<open>adminActionSchema\<close> admits it.\<close>

datatype admin_action = Approve | Reject | Activate | Deactivate | ResetFace

text \<open>
  \<^verbatim>\<open>performAdminAction\<close>: \<open>actor\<close> is \<^verbatim>\<open>req.user\<close>, \<open>i\<close> is \<^verbatim>\<open>req.params.id\<close>.
  \<^verbatim>\<open>req.user.organization.equals\<close> throws when the actor has no organization, and the
  handler answers 500.  The final \<^verbatim>\<open>save\<close> stores the paths that the action changed
  and the defaults that hydration supplied.
\<close>

definition performAdminAction ::
  "env \<Rightarrow> user \<Rightarrow> oid \<Rightarrow> admin_action \<Rightarrow> db \<Rightarrow> db \<times> (failure + user)" where
  "performAdminAction e actor i action d =
     (case User_findById i (db_users d) of
        None \<Rightarrow> (d, Inl (404, ''User not found''))
      | Some u \<Rightarrow>
         (if role actor = Admin \<and> organization actor = None
          then (d, Inl (500, ''Failed to perform admin action''))
          else if role actor = Admin \<and> \<not> equals (the (organization actor)) (organization u)
          then (d, Inl (403, ''You can only manage users in your organization''))
          else if user_id actor = user_id u \<and> (action = Deactivate \<or> action = Reject)
          then (d, Inl (400, ''Cannot perform this action on your own account''))
          else
            (let change =
                   (case action of
                      Approve \<Rightarrow> (\<lambda>x. x\<lparr>isApproved := True, approvedBy := Some (user_id actor),
                                         approvedDate := Some (env_now e)\<rparr>)
                    | Reject \<Rightarrow> (\<lambda>x. x\<lparr>isApproved := False, isActive := False\<rparr>)
                    | Activate \<Rightarrow> (\<lambda>x. x\<lparr>isActive := True\<rparr>)
                    | Deactivate \<Rightarrow> (\<lambda>x. x\<lparr>isActive := False\<rparr>)
                    | ResetFace \<Rightarrow> clearFaceData)
             in (d\<lparr>db_users := updateOne (user_id u) (\<lambda>x. written_defaults u (change x))
                                 (db_users d)\<rparr>,
                 Inr (written_defaults u (change u))))))"

section \<open>controllers/OrganizationController.js\<close>

definition role_name :: "role \<Rightarrow> string" where
  "role_name r = (case r of Employee \<Rightarrow> ''employee'' | Admin \<Rightarrow> ''admin'' | Hr \<Rightarrow> ''hr''
                  | SuperAdmin \<Rightarrow> ''super-admin'')"

text \<open>
  The filters of \<^verbatim>\<open>GET /organizations/:id/users\<close> read from the query string.  The
  text search, the sort, the page cut and the join with the day's attendance shape the
  answer out of the users selected here and are not modelled.
\<close>

record users_query =
  q_department :: "string option"
  q_role :: "string option"
  q_isActive :: "string option"

definition matches_query :: "oid \<Rightarrow> users_query \<Rightarrow> user \<Rightarrow> bool" where
  "matches_query i q u =
     (organization u = Some i
      \<and> (if falsy (q_department q) then True else department u = the (q_department q))
      \<and> (if falsy (q_role q) \<or> q_role q = Some ''all'' then True
         else role_name (role u) = the (q_role q))
      \<and> (case q_isActive q of None \<Rightarrow> True | Some s \<Rightarrow> isActive u = (s = ''true'')))"

text \<open>
  \<^verbatim>\<open>getOrganizationUsers\<close>: \<open>actor\<close> is \<^verbatim>\<open>req.user\<close>, \<open>i\<close> is \<^verbatim>\<open>req.params.id\<close>.
  \<^verbatim>\<open>req.user.organization?.equals(organization._id)\<close> is undefined, hence falsy, when
  the actor has no organization.
\<close>

definition getOrganizationUsers ::
  "user \<Rightarrow> oid \<Rightarrow> users_query \<Rightarrow> db \<Rightarrow> db \<times> (failure + user list)" where
  "getOrganizationUsers actor i q d =
     (case Organization_findById i (db_organizations d) of
        None \<Rightarrow> (d, Inl (404, ''Organization not found''))
      | Some g \<Rightarrow>
         (if role actor \<noteq> SuperAdmin
             \<and> (role actor \<noteq> Admin
                \<or> \<not> (case organization actor of
                        None \<Rightarrow> False
                      | Some a \<Rightarrow> equals a (Some (org_id g))))
          then (d, Inl (403, ''Access denied''))
          else (d, Inr (filter (matches_query i q) (db_users d)))))"

text \<open>
  What \<^verbatim>\<open>.select('_id name type description inviteCode')\<close> keeps of an organization.
\<close>

record org_public =
  pub_id :: oid
  pub_name :: string
  pub_type :: string
  pub_description :: "string option"
  pub_inviteCode :: "string option"

definition select_public :: "organization \<Rightarrow> org_public" where
  "select_public g =
     \<lparr>pub_id = org_id g, pub_name = org_name g, pub_type = org_type g,
      pub_description = org_description g, pub_inviteCode = inviteCode g\<rparr>"

definition InvalidInviteCode :: failure where
  "InvalidInviteCode = (404, ''Invalid invite code or organization not found'')"

text \<open>
  \<^verbatim>\<open>getOrganizationByInviteCode\<close>: \<open>code\<close> is \<^verbatim>\<open>req.params.inviteCode\<close>.
\<close>

definition getOrganizationByInviteCode :: "string \<Rightarrow> db \<Rightarrow> failure + org_public" where
  "getOrganizationByInviteCode code d =
     (case find (\<lambda>g. inviteCode g = Some code \<and> org_isActive g) (db_organizations d) of
        None \<Rightarrow> Inl InvalidInviteCode
      | Some g \<Rightarrow> Inr (select_public g))"

text \<open>The body of \<^verbatim>\<open>POST /organizations\<close>, of which the paths modelled here are kept.\<close>

record create_request =
  cr_name :: string
  cr_type :: string
  cr_description :: "string option"

text \<open>
  \<^verbatim>\<open>createOrganization\<close>: \<open>actor\<close> is \<^verbatim>\<open>req.user\<close>.  The new document gets the
  schema's default \<^verbatim>\<open>isActive = true\<close>.  The unique index on \<^verbatim>\<open>inviteCode\<close> makes
  the save throw when a stored organization has the code already.
\<close>

definition createOrganization ::
  "env \<Rightarrow> (nat \<Rightarrow> real) \<Rightarrow> user \<Rightarrow> create_request \<Rightarrow> db \<Rightarrow> db \<times> (failure + organization)" where
  "createOrganization e rnd actor v d =
     (case find (\<lambda>g. org_name g = cr_name v \<and> org_isActive g) (db_organizations d) of
        Some existingOrg \<Rightarrow> (d, Inl (400, ''Organization with this name already exists''))
      | None \<Rightarrow>
         (let organization0 =
                \<lparr>org_id = env_newId e, org_name = cr_name v, org_type = cr_type v,
                 org_description = cr_description v, inviteCode = None, org_isActive = True,
                 createdBy = Some (user_id actor)\<rparr>;
              organization1 = snd (generateInviteCode rnd organization0)
          in if list_ex (\<lambda>g. inviteCode g = inviteCode organization1) (db_organizations d)
             then (d, Inl (500, ''Failed to create organization''))
             else (d\<lparr>db_organizations := db_organizations d @ [organization1]\<rparr>,
                   Inr organization1)))"

text \<open>An upper-case letter or a digit, by its code.\<close>

definition is_upper_alnum :: "char \<Rightarrow> bool" where
  "is_upper_alnum c =
     (let n = (of_char c :: nat) in (65 \<le> n \<and> n \<le> 90) \<or> (48 \<le> n \<and> n \<le> 57))"

text \<open>Sample data: an admin of organization 3, an admin of organization 4, two organizations.\<close>

definition admin_a :: user where
  "admin_a = sample_user\<lparr>user_id := 8, email := ''admin@a.io'', role := Admin\<rparr>"

definition admin_b :: user where
  "admin_b = sample_user\<lparr>user_id := 9, email := ''admin@b.io'', role := Admin,
                          organization := Some 4\<rparr>"

definition org_a :: organization where
  "org_a = \<lparr>org_id = 3, org_name = ''Acme'', org_type = ''office'', org_description = None,
            inviteCode = Some ''ACME0001'', org_isActive = True, createdBy = Some 8\<rparr>"

definition org_b :: organization where
  "org_b = \<lparr>org_id = 4, org_name = ''Bolt'', org_type = ''factory'', org_description = None,
            inviteCode = Some ''BOLT0002'', org_isActive = False, createdBy = Some 9\<rparr>"

definition sample_db :: db where
  "sample_db = \<lparr>db_users = [sample_user, admin_a, admin_b],
                db_attendances = [sample_check_in],
                db_organizations = [org_a, org_b]\<rparr>"

definition no_filter :: users_query where
  "no_filter = \<lparr>q_department = None, q_role = None, q_isActive = None\<rparr>"

definition sample_create :: create_request where
  "sample_create = \<lparr>cr_name = ''Cogs'', cr_type = ''retail'', cr_description = None\<rparr>"

text \<open>A random source that returns one half in every round.\<close>

definition half :: "nat \<Rightarrow> real" where
  "half i = 1 / 2"

section \<open>Working hours and overtime\<close>

lemma markCheckOut_checkOutTime:
  "checkOutTime (markCheckOut now arg ev) = Some (case arg of None \<Rightarrow> now | Some t \<Rightarrow> t)"
  by (simp add: markCheckOut_def Let_def)

lemma markCheckOut_checkInTime: "checkInTime (markCheckOut now arg ev) = checkInTime ev"
  by (simp add: markCheckOut_def Let_def)

lemma markCheckOut_breakTime: "breakTime (markCheckOut now arg ev) = breakTime ev"
  by (simp add: markCheckOut_def Let_def)

lemma markCheckOut_workingHours:
  "workingHours (markCheckOut now arg ev) =
     calculateWorkingHours (checkInTime ev) (Some (case arg of None \<Rightarrow> now | Some t \<Rightarrow> t)) (breakTime ev)"
  by (simp add: markCheckOut_def Let_def)

lemma markCheckOut_overtime:
  "overtime (markCheckOut now arg ev) =
     (let wh = workingHours (markCheckOut now arg ev)
      in if wh > 480 then wh - 480 else overtime ev)"
  by (simp add: markCheckOut_def Let_def)

lemma calculateWorkingHours_Some:
  "calculateWorkingHours i (Some out) b = max 0 ((out - i) div 60000 - b)"
  by (simp add: calculateWorkingHours_def Let_def)


text \<open>
  What \<^verbatim>\<open>markCheckOut\<close> leaves on an event whose \<^verbatim>\<open>overtime\<close> still has the schema's
  default 0: the working hours of the formula, their excess over 480 as overtime, and
  the two examples of the specification.
\<close>

lemma first_check_out_metrics:
  assumes "overtime ev = 0"
      and "out = (case arg of None \<Rightarrow> now | Some t \<Rightarrow> t)"
      and "ev' = markCheckOut now arg ev"
  shows "checkOutTime ev' = Some out
       \<and> workingHours ev' = max 0 ((out - checkInTime ev') div (1000 * 60) - breakTime ev')
       \<and> overtime ev' = (if workingHours ev' > 480 then workingHours ev' - 480 else 0)
       \<and> (checkInTime ev = at_time 9 0 \<and> out = at_time 18 0 \<and> breakTime ev = 60
            \<longrightarrow> workingHours ev' = 480 \<and> overtime ev' = 0)
       \<and> (checkInTime ev = at_time 9 0 \<and> out = at_time 19 30 \<and> breakTime ev = 30
            \<longrightarrow> workingHours ev' = 600 \<and> overtime ev' = 120)"
proof -
  have t: "checkOutTime ev' = Some out"
    using assms(2,3) by (simp add: markCheckOut_checkOutTime)
  have w: "workingHours ev' = max 0 ((out - checkInTime ev) div 60000 - breakTime ev)"
    using assms(2,3) by (simp add: markCheckOut_workingHours calculateWorkingHours_Some)
  have o: "overtime ev' = (if workingHours ev' > 480 then workingHours ev' - 480 else 0)"
    using assms(1,3) by (simp add: markCheckOut_overtime Let_def)
  have e1: "checkInTime ev = at_time 9 0 \<and> out = at_time 18 0 \<and> breakTime ev = 60
            \<longrightarrow> workingHours ev' = 480 \<and> overtime ev' = 0"
    using w o by (simp add: at_time_def)
  have e2: "checkInTime ev = at_time 9 0 \<and> out = at_time 19 30 \<and> breakTime ev = 30
            \<longrightarrow> workingHours ev' = 600 \<and> overtime ev' = 120"
    using w o by (simp add: at_time_def)
  have w': "workingHours ev' = max 0 ((out - checkInTime ev') div (1000 * 60) - breakTime ev')"
    using w assms(3) by (simp add: markCheckOut_checkInTime markCheckOut_breakTime)
  from t w' o e1 e2 show ?thesis by blast
qed

text \<open>
  C3.  The specification has \<open>overtime = 0\<close> after every check-out whose working hours
  do not exceed 480.  The sample check-in of 09:00 with a break of 60 minutes is
  checked out at 19:30, which records 570 working minutes and 90 of overtime, and then
  checked out again at 18:00: the working hours become 480 and the overtime stays 90,
  because \<^verbatim>\<open>markCheckOut\<close> writes \<^verbatim>\<open>overtime\<close> only when the working hours exceed the
  standard day and has no branch that resets it.
\<close>

theorem C3_second_check_out_keeps_overtime:
  "workingHours (markCheckOut 0 (Some (at_time 19 30)) (sample_check_in\<lparr>breakTime := 60\<rparr>)) = 570
   \<and> overtime (markCheckOut 0 (Some (at_time 19 30)) (sample_check_in\<lparr>breakTime := 60\<rparr>)) = 90
   \<and> workingHours (markCheckOut 0 (Some (at_time 18 0))
          (markCheckOut 0 (Some (at_time 19 30)) (sample_check_in\<lparr>breakTime := 60\<rparr>))) = 480
   \<and> overtime (markCheckOut 0 (Some (at_time 18 0))
          (markCheckOut 0 (Some (at_time 19 30)) (sample_check_in\<lparr>breakTime := 60\<rparr>))) = 90"
  by (simp add: markCheckOut_overtime markCheckOut_workingHours markCheckOut_checkInTime
        markCheckOut_breakTime calculateWorkingHours_Some Let_def sample_check_in_def at_time_def)

section \<open>Login lockout\<close>









lemma credential_checks_Cons:
  "findByCredentials cmp t e pw users = (users1, r) \<Longrightarrow> credential_checks cmp e rest users1 = (users2, rs)
     \<Longrightarrow> credential_checks cmp e ((t, pw) # rest) users = (users2, r # rs)"
  by simp




text \<open>The query finds the sample account under another spelling of its email.\<close>

lemma cast_other_spelling: "cast_email '' A@X.IO '' = ''a@x.io''"
  by code_simp






section \<open>Face enrolment\<close>

text \<open>
  C10.  The specification has \<open>faceEnrolled\<close> true once one descriptor is stored.  On
  an account with no descriptor \<^verbatim>\<open>addFaceDescriptor\<close> stores the descriptor and leaves
  \<open>faceEnrolled\<close> false: it sets the flag from the third descriptor on only, while
  \<^verbatim>\<open>enrollFace\<close> of the controller sets it from the first.
\<close>

theorem C10_first_descriptor_not_enrolled:
  "faceDescriptors sample_user = []
   \<and> faceDescriptors (addFaceDescriptor sample_descriptor sample_user) = [sample_descriptor]
   \<and> faceEnrolled (addFaceDescriptor sample_descriptor sample_user) = False
   \<and> map_sum id faceEnrolled
         (enrollFace 0 (Some sample_file) (Some sample_descriptor) sample_user) = Inr True"
  by (simp add: addFaceDescriptor_def enrollFace_def sample_user_def Let_def)

text \<open>When \<^verbatim>\<open>addFaceDescriptor\<close> leaves the flag set.\<close>

lemma addFaceDescriptor_faceEnrolled:
  "faceEnrolled (addFaceDescriptor d u) = (faceEnrolled u \<or> length (faceDescriptors u) \<ge> 2)"
  by (auto simp: addFaceDescriptor_def Let_def)

section \<open>Password reset tokens\<close>

lemma resetPassword_fails_without_match:
  assumes "find (token_matches (sha256 token) now) users = None"
  shows "\<exists>f. resetPassword sha256 bhash now token pw confirm users = (users, Inl f)"
  using assms by (simp add: resetPassword_def Let_def)

lemma resetPassword_success_cases:
  assumes "resetPassword sha256 bhash now token pw confirm users = (users', Inr r)"
  obtains w where "find (token_matches (sha256 token) now) users = Some w"
    and "users' = updateOne (user_id w)
                    (\<lambda>x. x\<lparr>password := (if password x \<noteq> the pw then bhash (the pw)
                                            else password x),
                            resetPasswordToken := None, resetPasswordExpires := None,
                            loginAttempts := Some 0, lockUntil := None\<rparr>) users"
  using assms
  by (auto simp: resetPassword_def Let_def split: if_splits option.splits)

lemma no_holder_after_clear:
  assumes one: "filter (\<lambda>v. resetPasswordToken v = Some h) users = [u]"
      and clr: "\<And>x. resetPasswordToken (change x) = None"
  shows "find (token_matches h now) (updateOne (user_id u) change users) = None"
proof -
  have "\<not> token_matches h now v" if "v \<in> set (updateOne (user_id u) change users)" for v
  proof -
    from that obtain x where x: "x \<in> set users"
        "v = (if user_id x = user_id u then change x else x)"
      by (auto simp: updateOne_def)
    show ?thesis
    proof (cases "user_id x = user_id u")
      case True
      with x clr show ?thesis by (simp add: token_matches_def)
    next
      case False
      then have "x \<noteq> u" by auto
      moreover have "set (filter (\<lambda>v. resetPasswordToken v = Some h) users) = {u}"
        using one by simp
      ultimately have "resetPasswordToken x \<noteq> Some h" using x(1) by auto
      with x False show ?thesis by (simp add: token_matches_def)
    qed
  qed
  then show ?thesis by (simp add: find_None_iff)
qed

lemma holder_is_found:
  assumes one: "filter (\<lambda>v. resetPasswordToken v = Some h) users = [u]"
      and "find (token_matches h now) users = Some w"
  shows "w = u"
proof -
  from assms(2) have "w \<in> set users" "token_matches h now w"
    by (auto simp: find_Some_iff)
  then have "w \<in> set (filter (\<lambda>v. resetPasswordToken v = Some h) users)"
    by (simp add: token_matches_def)
  with one show ?thesis by simp
qed

lemma expired_no_match:
  assumes one: "filter (\<lambda>v. resetPasswordToken v = Some h) users = [u]"
      and "resetPasswordExpires u = Some ex" and "ex \<le> now"
  shows "find (token_matches h now) users = None"
proof -
  have "\<not> token_matches h now v" if "v \<in> set users" for v
  proof (cases "resetPasswordToken v = Some h")
    case True
    with that have "v \<in> set (filter (\<lambda>v. resetPasswordToken v = Some h) users)" by simp
    with one have "v = u" by simp
    with assms(2,3) show ?thesis by (simp add: token_matches_def)
  next
    case False
    then show ?thesis by (simp add: token_matches_def)
  qed
  then show ?thesis by (simp add: find_None_iff)
qed

text \<open>
  C8.  Let the hash of a reset token be stored on exactly one account.  After a
  successful \<^verbatim>\<open>resetPassword\<close> with that token no account holds the hash any more and
  every later submission of the token, at any time and with any passwords, fails and
  changes nothing.  \<^verbatim>\<open>createPasswordResetToken\<close> sets the expiry 10 minutes after the
  time of issue, and a submission at or after that expiry fails and changes nothing,
  the token being the right one.
\<close>

theorem C8_reset_token_single_use_and_expiry:
  assumes one: "filter (\<lambda>v. resetPasswordToken v = Some (sha256 token)) users = [u]"
  shows "(resetPassword sha256 bhash now token pw confirm users = (users', Inr r)
            \<longrightarrow> find (\<lambda>v. resetPasswordToken v = Some (sha256 token)) users' = None
                \<and> (\<forall>now2 pw2 confirm2.
                      \<exists>f. resetPassword sha256 bhash now2 token pw2 confirm2 users'
                            = (users', Inl f)))
       \<and> resetPasswordExpires (snd (createPasswordResetToken sha256 issued token u))
           = Some (issued + 10 * 60 * 1000)
       \<and> (resetPasswordExpires u = Some (issued + 10 * 60 * 1000)
            \<and> issued + 10 * 60 * 1000 \<le> now
            \<longrightarrow> (\<exists>f. resetPassword sha256 bhash now token pw confirm users = (users, Inl f)))"
proof (intro conjI impI)
  assume s: "resetPassword sha256 bhash now token pw confirm users = (users', Inr r)"
  let ?change = "\<lambda>x. x\<lparr>password := (if password x \<noteq> the pw then bhash (the pw)
                                            else password x),
                            resetPasswordToken := None, resetPasswordExpires := None,
                            loginAttempts := Some 0, lockUntil := None\<rparr>"
  from s obtain w where w: "find (token_matches (sha256 token) now) users = Some w"
      "users' = updateOne (user_id w) ?change users"
    by (rule resetPassword_success_cases)
  from holder_is_found [OF one w(1)] have "w = u" .
  with w(2) have u': "users' = updateOne (user_id u) ?change users" by simp
  have none: "find (token_matches (sha256 token) t) users' = None" for t
    unfolding u' by (rule no_holder_after_clear [OF one]) simp
  have "resetPasswordToken v \<noteq> Some (sha256 token)" if "v \<in> set users'" for v
  proof -
    from that obtain x where x: "x \<in> set users"
        "v = (if user_id x = user_id u then ?change x else x)"
      unfolding u' by (auto simp: updateOne_def)
    show ?thesis
    proof (cases "user_id x = user_id u")
      case True
      with x show ?thesis by simp
    next
      case False
      then have "x \<noteq> u" by auto
      moreover have "set (filter (\<lambda>v. resetPasswordToken v = Some (sha256 token)) users) = {u}"
        using one by simp
      ultimately have "resetPasswordToken x \<noteq> Some (sha256 token)" using x(1) by auto
      with x False show ?thesis by simp
    qed
  qed
  then show "find (\<lambda>v. resetPasswordToken v = Some (sha256 token)) users' = None"
    by (simp add: find_None_iff)
  show "\<forall>now2 pw2 confirm2.
          \<exists>f. resetPassword sha256 bhash now2 token pw2 confirm2 users' = (users', Inl f)"
  proof (intro allI)
    fix now2 pw2 confirm2
    show "\<exists>f. resetPassword sha256 bhash now2 token pw2 confirm2 users' = (users', Inl f)"
      using none [of now2]
      by (rule resetPassword_fails_without_match [where ?sha256.0 = sha256 and token = token])
  qed
next
  show "resetPasswordExpires (snd (createPasswordResetToken sha256 issued token u))
           = Some (issued + 10 * 60 * 1000)"
    by (simp add: createPasswordResetToken_def)
next
  assume "resetPasswordExpires u = Some (issued + 10 * 60 * 1000)
            \<and> issued + 10 * 60 * 1000 \<le> now"
  then have "find (token_matches (sha256 token) now) users = None"
    using expired_no_match [OF one] by blast
  then show "\<exists>f. resetPassword sha256 bhash now token pw confirm users = (users, Inl f)"
    by (rule resetPassword_fails_without_match [where ?sha256.0 = sha256 and token = token])
qed


lemma sample_one_holder:
  "filter (\<lambda>v. resetPasswordToken v = Some (sample_hash ''t0k3n'')) [sample_user_with_token]
     = [sample_user_with_token]"
  by (simp add: sample_user_with_token_def createPasswordResetToken_def)

text \<open>
  The token of the sample account: used at time 2000 and submitted again at 3000, and
  submitted first at its expiry.
\<close>

theorem C8_reset_token_witness:
  "filter (\<lambda>v. resetPasswordToken v = Some (sample_hash ''t0k3n'')) [sample_user_with_token]
     = [sample_user_with_token]
   \<and> (\<exists>users' r.
         resetPassword sample_hash sample_hash 2000 ''t0k3n'' (Some ''newpass'') (Some ''newpass'')
           [sample_user_with_token] = (users', Inr r)
         \<and> (\<exists>f. resetPassword sample_hash sample_hash 3000 ''t0k3n'' (Some ''newpass'')
                   (Some ''newpass'') users' = (users', Inl f)))
   \<and> resetPasswordExpires sample_user_with_token = Some (1000 + 10 * 60 * 1000)
   \<and> (1000 + 10 * 60 * 1000 :: int) \<le> 601000
   \<and> (\<exists>f. resetPassword sample_hash sample_hash 601000 ''t0k3n'' (Some ''newpass'')
             (Some ''newpass'') [sample_user_with_token] = ([sample_user_with_token], Inl f))"
proof -
  have m: "token_matches (sample_hash ''t0k3n'') 2000 sample_user_with_token"
    by (simp add: token_matches_def sample_user_with_token_def createPasswordResetToken_def)
  have "\<exists>users' r.
         resetPassword sample_hash sample_hash 2000 ''t0k3n'' (Some ''newpass'') (Some ''newpass'')
           [sample_user_with_token] = (users', Inr r)"
    using m by (simp add: resetPassword_def falsy_def Let_def)
  then obtain users' r where s:
      "resetPassword sample_hash sample_hash 2000 ''t0k3n'' (Some ''newpass'') (Some ''newpass'')
           [sample_user_with_token] = (users', Inr r)"
    by blast
  have e: "resetPasswordExpires sample_user_with_token = Some (1000 + 10 * 60 * 1000)"
    by (simp add: sample_user_with_token_def createPasswordResetToken_def)
  have l: "(1000 + 10 * 60 * 1000 :: int) \<le> 601000" by simp
  note T = C8_reset_token_single_use_and_expiry [where ?sha256.0 = sample_hash
      and token = "''t0k3n''" and users = "[sample_user_with_token]"
      and u = sample_user_with_token and bhash = sample_hash
      and pw = "Some ''newpass''" and confirm = "Some ''newpass''", OF sample_one_holder]
  have a: "\<exists>f. resetPassword sample_hash sample_hash 3000 ''t0k3n'' (Some ''newpass'')
                   (Some ''newpass'') users' = (users', Inl f)"
    using T [where now = 2000 and users' = users' and r = r, THEN conjunct1, THEN mp, OF s]
    by blast
  have b: "\<exists>f. resetPassword sample_hash sample_hash 601000 ''t0k3n'' (Some ''newpass'')
             (Some ''newpass'') [sample_user_with_token] = ([sample_user_with_token], Inl f)"
    using T [where now = 601000 and issued = 1000, THEN conjunct2, THEN conjunct2, THEN mp,
             OF conjI, OF e l] .
  from sample_one_holder s a e l b show ?thesis by blast
qed

section \<open>The check-in and check-out transitions\<close>

text \<open>The first match in a list sorted by a key has the least key among the matches.\<close>

lemma find_sort_key_None: "find P (sort_key f xs) = None \<longleftrightarrow> filter P xs = []"
  by (auto simp: find_None_iff filter_empty_conv)

lemma find_sort_key_Some:
  fixes f :: "'a \<Rightarrow> int"
  assumes "find P (sort_key f xs) = Some a"
  shows "a \<in> set xs" and "P a" and "\<And>x. x \<in> set xs \<Longrightarrow> P x \<Longrightarrow> f a \<le> f x"
proof -
  let ?ys = "sort_key f xs"
  from assms obtain i where i: "i < length ?ys" "P (?ys ! i)" "a = ?ys ! i"
      "\<forall>j<i. \<not> P (?ys ! j)"
    by (auto simp: find_Some_iff)
  from i(1) have "?ys ! i \<in> set ?ys" by (rule nth_mem)
  with i(3) show "a \<in> set xs" by simp
  from i(2,3) show "P a" by simp
  fix x assume x: "x \<in> set xs" "P x"
  then have "x \<in> set ?ys" by simp
  then obtain k where k: "k < length ?ys" "?ys ! k = x" by (metis in_set_conv_nth)
  with x(2) i(4) have "i \<le> k" by (metis not_le_imp_less)
  moreover have "sorted (map f ?ys)" by (rule sorted_sort_key)
  ultimately have "map f ?ys ! i \<le> map f ?ys ! k"
    using k(1) by (simp add: sorted_iff_nth_mono del: length_sort nth_map)
  with i(1,3) k show "f a \<le> f x" by simp
qed

lemma last_of_type_None:
  "find (\<lambda>a. att_type a = ty) (sort_key (\<lambda>a. - checkInTime a) evs) = None
     \<longleftrightarrow> times_of ty evs = []"
  by (simp add: find_sort_key_None times_of_def)

lemma last_of_type_Some:
  assumes "find (\<lambda>a. att_type a = ty) (sort_key (\<lambda>a. - checkInTime a) evs) = Some a"
  shows "times_of ty evs \<noteq> []" and "Max (set (times_of ty evs)) = checkInTime a"
proof -
  note s = find_sort_key_Some [OF assms]
  from s(1,2) have m: "checkInTime a \<in> set (times_of ty evs)"
    by (auto simp: times_of_def)
  then show "times_of ty evs \<noteq> []" by auto
  have "y \<le> checkInTime a" if "y \<in> set (times_of ty evs)" for y
  proof -
    from that obtain x where "x \<in> set evs" "att_type x = ty" "y = checkInTime x"
      by (auto simp: times_of_def)
    with s(3) [of x] show ?thesis by simp
  qed
  with m show "Max (set (times_of ty evs)) = checkInTime a"
    by (intro Max_eqI) auto
qed

lemma check_in_decision:
  "(case find (\<lambda>a. att_type a = CheckIn) (existingAttendance e uid atts) of
      None \<Rightarrow> False
    | Some ci \<Rightarrow> (case find (\<lambda>a. att_type a = CheckOut) (existingAttendance e uid atts) of
                   None \<Rightarrow> True
                 | Some co \<Rightarrow> checkInTime co < checkInTime ci))
   = open_check_in_exists (todays_events e uid atts)"
proof -
  let ?evs = "filter (in_today e uid) atts"
  let ?last = "\<lambda>ty. find (\<lambda>a. att_type a = ty) (sort_key (\<lambda>a. - checkInTime a) ?evs)"
  show ?thesis
  proof (cases "?last CheckIn")
    case None
    then have "times_of CheckIn ?evs = []" by (simp add: last_of_type_None)
    with None show ?thesis
      by (simp add: existingAttendance_def todays_events_def open_check_in_exists_def)
  next
    case ci: (Some ci)
    note i = last_of_type_Some [OF ci]
    show ?thesis
    proof (cases "?last CheckOut")
      case None
      then have "times_of CheckOut ?evs = []" by (simp add: last_of_type_None)
      with None ci i show ?thesis
        by (simp add: existingAttendance_def todays_events_def open_check_in_exists_def)
    next
      case co: (Some co)
      note o = last_of_type_Some [OF co]
      from ci co i o show ?thesis
        by (simp add: existingAttendance_def todays_events_def open_check_in_exists_def)
    qed
  qed
qed

lemma check_out_decision:
  "(case find (\<lambda>a. att_type a = CheckIn) (existingAttendance e uid atts) of
      None \<Rightarrow> True
    | Some ci \<Rightarrow> (case find (\<lambda>a. att_type a = CheckOut) (existingAttendance e uid atts) of
                   None \<Rightarrow> False
                 | Some co \<Rightarrow> checkInTime co > checkInTime ci))
   = nothing_to_check_out (todays_events e uid atts)"
proof -
  let ?evs = "filter (in_today e uid) atts"
  let ?last = "\<lambda>ty. find (\<lambda>a. att_type a = ty) (sort_key (\<lambda>a. - checkInTime a) ?evs)"
  show ?thesis
  proof (cases "?last CheckIn")
    case None
    then have "times_of CheckIn ?evs = []" by (simp add: last_of_type_None)
    with None show ?thesis
      by (simp add: existingAttendance_def todays_events_def nothing_to_check_out_def)
  next
    case ci: (Some ci)
    note i = last_of_type_Some [OF ci]
    show ?thesis
    proof (cases "?last CheckOut")
      case None
      then have "times_of CheckOut ?evs = []" by (simp add: last_of_type_None)
      with None ci i show ?thesis
        by (simp add: existingAttendance_def todays_events_def nothing_to_check_out_def)
    next
      case co: (Some co)
      note o = last_of_type_Some [OF co]
      from ci co i o show ?thesis
        by (simp add: existingAttendance_def todays_events_def nothing_to_check_out_def)
    qed
  qed
qed


text \<open>The gates of \<^verbatim>\<open>markAttendance\<close>, and the handler once they are passed.\<close>

lemma markAttendance_gates:
  "\<not> markAttendanceSchema_valid r
     \<Longrightarrow> markAttendance e u r d = (d, Inl (400, ''Validation error''))"
  "markAttendanceSchema_valid r \<Longrightarrow> \<not> isApproved u
     \<Longrightarrow> markAttendance e u r d = (d, Inl NotApproved)"
  "markAttendanceSchema_valid r \<Longrightarrow> isApproved u \<Longrightarrow> \<not> isActive u
     \<Longrightarrow> markAttendance e u r d = (d, Inl AccountInactive)"
  by (auto simp: markAttendance_def)

lemma markAttendance_check_in:
  assumes "isApproved u" and "isActive u" and "req_type r = CheckIn"
      and "markAttendanceSchema_valid r"
  shows "markAttendance e u r d =
     (if open_check_in_exists (todays_events e (user_id u) (db_attendances d))
      then (d, Inl AlreadyCheckedIn)
      else case save_new_attendance e (new_Attendance e u r) (db_attendances d) of
             None \<Rightarrow> (d, Inl (500, ''Failed to mark attendance''))
           | Some (atts', saved) \<Rightarrow>
               (d\<lparr>db_attendances := atts',
                  db_users := updateOne (user_id u) (\<lambda>x. written_defaults u (x\<lparr>lastLogin := Some (env_now e)\<rparr>)) (db_users d)\<rparr>,
                Inr saved))"
  using assms by (simp add: markAttendance_def Let_def check_in_decision)

lemma markAttendance_check_out:
  assumes "isApproved u" and "isActive u" and "req_type r = CheckOut"
      and "markAttendanceSchema_valid r"
  shows "markAttendance e u r d =
     (if nothing_to_check_out (todays_events e (user_id u) (db_attendances d))
      then (d, Inl NoOpenCheckIn)
      else case save_new_attendance e
                  ((new_Attendance e u r)\<lparr>checkOutTime := Some (checkInTime (new_Attendance e u r))\<rparr>)
                  (db_attendances d) of
             None \<Rightarrow> (d, Inl (500, ''Failed to mark attendance''))
           | Some (atts', saved) \<Rightarrow>
               (d\<lparr>db_attendances := atts',
                  db_users := updateOne (user_id u) (\<lambda>x. written_defaults u (x\<lparr>lastLogin := Some (env_now e)\<rparr>)) (db_users d)\<rparr>,
                Inr saved))"
  using assms by (simp add: markAttendance_def Let_def check_out_decision)

lemma save_new_attendance_Some:
  assumes "att_organization a = Some g"
  shows "save_new_attendance e a atts
           = Some (atts @ [a\<lparr>att_date := startOfDay (env_tz e) (checkInTime a)\<rparr>],
                   a\<lparr>att_date := startOfDay (env_tz e) (checkInTime a)\<rparr>)"
  using assms by (simp add: save_new_attendance_def Let_def)

lemma new_Attendance_organization: "att_organization (new_Attendance e u r) = organization u"
  by (simp add: new_Attendance_def)

lemma new_Attendance_fields:
  "att_type (new_Attendance e u r) = req_type r"
  "att_user (new_Attendance e u r) = user_id u"
  "att_id (new_Attendance e u r) = env_newId e"
  "checkOutTime (new_Attendance e u r) = None"
  "checkInTime (new_Attendance e u r) =
     (case (if req_isOffline r then req_offlineTimestamp r else None) of
        Some (ValidDate t) \<Rightarrow> t | _ \<Rightarrow> env_now e)"
  "workingHours (new_Attendance e u r) = 0"
  "breakTime (new_Attendance e u r) = 0"
  "overtime (new_Attendance e u r) = 0"
  by (simp_all add: new_Attendance_def request_time_def)


text \<open>
  C1 (amended).  For a user who is approved, active and belongs to an organization, and a
  check-in request whose body passes the request schema: when an open check-in exists
  among the user's events of the day the request fails with \<open>AlreadyCheckedIn\<close> and the
  store is unchanged; otherwise one check-in event of the user is appended to the
  collection (and the save of the user writes \<^verbatim>\<open>lastLogin\<close>), its time being
  \<^verbatim>\<open>offlineTimestamp\<close> when the request is flagged offline and carries one, and the
  clock otherwise.
\<close>

theorem C1_check_in:
  assumes "isApproved u" and "isActive u" and "organization u = Some g"
      and "req_type r = CheckIn" and "markAttendanceSchema_valid r"
  shows "(open_check_in_exists (todays_events e (user_id u) (db_attendances d))
            \<longrightarrow> markAttendance e u r d = (d, Inl AlreadyCheckedIn))
       \<and> (\<not> open_check_in_exists (todays_events e (user_id u) (db_attendances d))
            \<longrightarrow> (\<exists>ev. markAttendance e u r d
                        = (d\<lparr>db_attendances := db_attendances d @ [ev],
                              db_users := updateOne (user_id u)
                                         (\<lambda>x. written_defaults u (x\<lparr>lastLogin := Some (env_now e)\<rparr>)) (db_users d)\<rparr>,
                           Inr ev)
                  \<and> att_type ev = CheckIn \<and> att_user ev = user_id u
                  \<and> checkOutTime ev = None
                  \<and> checkInTime ev = (case (if req_isOffline r then req_offlineTimestamp r
                                             else None) of
                                        Some (ValidDate t) \<Rightarrow> t | _ \<Rightarrow> env_now e)))"
proof (intro conjI impI)
  assume "open_check_in_exists (todays_events e (user_id u) (db_attendances d))"
  then show "markAttendance e u r d = (d, Inl AlreadyCheckedIn)"
    using assms by (simp add: markAttendance_check_in)
next
  assume n: "\<not> open_check_in_exists (todays_events e (user_id u) (db_attendances d))"
  let ?a = "new_Attendance e u r"
  let ?ev = "?a\<lparr>att_date := startOfDay (env_tz e) (checkInTime ?a)\<rparr>"
  have o: "att_organization ?a = Some g"
    using assms(3) by (simp add: new_Attendance_organization)
  have m: "markAttendance e u r d
             = (d\<lparr>db_attendances := db_attendances d @ [?ev],
                   db_users := updateOne (user_id u)
                              (\<lambda>x. written_defaults u (x\<lparr>lastLogin := Some (env_now e)\<rparr>)) (db_users d)\<rparr>,
                Inr ?ev)"
    using assms n by (simp add: markAttendance_check_in save_new_attendance_Some [OF o])
  have f: "att_type ?ev = CheckIn" "att_user ?ev = user_id u" "checkOutTime ?ev = None"
    "checkInTime ?ev = (case (if req_isOffline r then req_offlineTimestamp r else None) of
                          Some (ValidDate t) \<Rightarrow> t | _ \<Rightarrow> env_now e)"
    using assms(4) by (simp_all add: new_Attendance_fields)
  from m f show "\<exists>ev. markAttendance e u r d
                        = (d\<lparr>db_attendances := db_attendances d @ [ev],
                              db_users := updateOne (user_id u)
                                         (\<lambda>x. written_defaults u (x\<lparr>lastLogin := Some (env_now e)\<rparr>)) (db_users d)\<rparr>,
                           Inr ev)
                  \<and> att_type ev = CheckIn \<and> att_user ev = user_id u
                  \<and> checkOutTime ev = None
                  \<and> checkInTime ev = (case (if req_isOffline r then req_offlineTimestamp r
                                             else None) of
                                        Some (ValidDate t) \<Rightarrow> t | _ \<Rightarrow> env_now e)"
    by blast
qed

text \<open>
  C2 (amended).  For a user who is approved, active and belongs to an organization, and a
  check-out request whose body passes the request schema: when the user's events of the
  day hold no check-in, or a check-out later than the most recent check-in, the request
  fails with \<open>NoOpenCheckIn\<close> and the store is unchanged; otherwise one check-out event
  of the user is appended to the collection.
\<close>

theorem C2_check_out:
  assumes "isApproved u" and "isActive u" and "organization u = Some g"
      and "req_type r = CheckOut" and "markAttendanceSchema_valid r"
  shows "(nothing_to_check_out (todays_events e (user_id u) (db_attendances d))
            \<longrightarrow> markAttendance e u r d = (d, Inl NoOpenCheckIn))
       \<and> (\<not> nothing_to_check_out (todays_events e (user_id u) (db_attendances d))
            \<longrightarrow> (\<exists>ev. markAttendance e u r d
                        = (d\<lparr>db_attendances := db_attendances d @ [ev],
                              db_users := updateOne (user_id u)
                                         (\<lambda>x. written_defaults u (x\<lparr>lastLogin := Some (env_now e)\<rparr>)) (db_users d)\<rparr>,
                           Inr ev)
                  \<and> att_type ev = CheckOut \<and> att_user ev = user_id u))"
proof (intro conjI impI)
  assume "nothing_to_check_out (todays_events e (user_id u) (db_attendances d))"
  then show "markAttendance e u r d = (d, Inl NoOpenCheckIn)"
    using assms by (simp add: markAttendance_check_out)
next
  assume n: "\<not> nothing_to_check_out (todays_events e (user_id u) (db_attendances d))"
  let ?a = "(new_Attendance e u r)\<lparr>checkOutTime := Some (checkInTime (new_Attendance e u r))\<rparr>"
  let ?ev = "?a\<lparr>att_date := startOfDay (env_tz e) (checkInTime ?a)\<rparr>"
  have o: "att_organization ?a = Some g"
    using assms(3) by (simp add: new_Attendance_organization)
  have m: "markAttendance e u r d
             = (d\<lparr>db_attendances := db_attendances d @ [?ev],
                   db_users := updateOne (user_id u)
                              (\<lambda>x. written_defaults u (x\<lparr>lastLogin := Some (env_now e)\<rparr>)) (db_users d)\<rparr>,
                Inr ?ev)"
    using assms n by (simp add: markAttendance_check_out save_new_attendance_Some [OF o])
  have f: "att_type ?ev = CheckOut" "att_user ?ev = user_id u"
    using assms(4) by (simp_all add: new_Attendance_fields)
  from m f show "\<exists>ev. markAttendance e u r d
                        = (d\<lparr>db_attendances := db_attendances d @ [ev],
                              db_users := updateOne (user_id u)
                                         (\<lambda>x. written_defaults u (x\<lparr>lastLogin := Some (env_now e)\<rparr>)) (db_users d)\<rparr>,
                           Inr ev)
                  \<and> att_type ev = CheckOut \<and> att_user ev = user_id u"
    by blast
qed

lemma sample_requests_valid:
  "markAttendanceSchema_valid check_in_request"
  "markAttendanceSchema_valid check_out_request"
  "\<not> markAttendanceSchema_valid (check_in_request\<lparr>req_note := Some long_note\<rparr>)"
  "\<not> markAttendanceSchema_valid (check_out_request\<lparr>req_note := Some long_note\<rparr>)"
  by (simp_all add: markAttendanceSchema_valid_def joi_string_max_def check_in_request_def
        check_out_request_def long_note_def)

lemma sample_user_gates:
  "isApproved sample_user" "isActive sample_user" "organization sample_user = Some 3"
  "user_id sample_user = 7"
  by (simp_all add: sample_user_def)

lemma sample_today:
  "todays_events sample_env 7 [] = []"
  "todays_events sample_env 7 [sample_check_in] = [sample_check_in]"
  by (simp_all add: todays_events_def in_today_def sample_env_def sample_check_in_def
        startOfDay_def at_time_def)

lemma sample_open:
  "\<not> open_check_in_exists []" "open_check_in_exists [sample_check_in]"
  "nothing_to_check_out []" "\<not> nothing_to_check_out [sample_check_in]"
  by (simp_all add: open_check_in_exists_def nothing_to_check_out_def times_of_def
        sample_check_in_def)


text \<open>
  The sample user checking in at 10:00: refused after the check-in of 09:00, accepted on
  an empty ledger.
\<close>

theorem C1_check_in_witness:
  "open_check_in_exists (todays_events sample_env (user_id sample_user) (db_attendances checked_in_db))
   \<and> markAttendance sample_env sample_user check_in_request checked_in_db
       = (checked_in_db, Inl AlreadyCheckedIn)
   \<and> \<not> open_check_in_exists (todays_events sample_env (user_id sample_user) (db_attendances empty_db))
   \<and> (\<exists>ev. fst (markAttendance sample_env sample_user check_in_request empty_db)
              = empty_db\<lparr>db_attendances := [ev],
                          db_users := [sample_user\<lparr>lastLogin := Some (at_time 10 0), loginAttempts := Some 0\<rparr>]\<rparr>
          \<and> att_type ev = CheckIn \<and> checkInTime ev = at_time 10 0)"
proof -
  have r: "req_type check_in_request = CheckIn" by (simp add: check_in_request_def)
  have a: "open_check_in_exists
             (todays_events sample_env (user_id sample_user) (db_attendances checked_in_db))"
    by (simp add: checked_in_db_def sample_user_gates sample_today sample_open)
  have b: "\<not> open_check_in_exists
             (todays_events sample_env (user_id sample_user) (db_attendances empty_db))"
    by (simp add: empty_db_def sample_user_gates sample_today sample_open)
  note T = C1_check_in [OF sample_user_gates(1,2,3) r sample_requests_valid(1), of sample_env]
  have c: "markAttendance sample_env sample_user check_in_request checked_in_db
       = (checked_in_db, Inl AlreadyCheckedIn)"
    using T [of checked_in_db, THEN conjunct1, THEN mp, OF a] .
  from T [of empty_db, THEN conjunct2, THEN mp, OF b]
  obtain ev where ev: "markAttendance sample_env sample_user check_in_request empty_db
       = (empty_db\<lparr>db_attendances := db_attendances empty_db @ [ev],
                   db_users := updateOne (user_id sample_user)
                              (\<lambda>x. written_defaults sample_user (x\<lparr>lastLogin := Some (env_now sample_env)\<rparr>)) (db_users empty_db)\<rparr>,
          Inr ev)"
      "att_type ev = CheckIn"
      "checkInTime ev = (case (if req_isOffline check_in_request
                               then req_offlineTimestamp check_in_request else None) of
                           Some (ValidDate t) \<Rightarrow> t | _ \<Rightarrow> env_now sample_env)"
    by blast
  have d: "fst (markAttendance sample_env sample_user check_in_request empty_db)
              = empty_db\<lparr>db_attendances := [ev],
                          db_users := [sample_user\<lparr>lastLogin := Some (at_time 10 0), loginAttempts := Some 0\<rparr>]\<rparr>"
    using ev(1)
    by (simp add: empty_db_def updateOne_def sample_env_def written_defaults_def sample_user_def)
  have t: "checkInTime ev = at_time 10 0"
    using ev(3) by (simp add: check_in_request_def sample_env_def)
  from a c b d ev(2) t show ?thesis by blast
qed

text \<open>
  With no event on the day, where a check-in is in order, the request
  of a user who is not approved, not active or without an organization fails and
  creates nothing, and so does the request of the sample user with a note of 501
  characters.
\<close>

theorem C1_gates_counterexample:
  "\<not> open_check_in_exists (todays_events sample_env (user_id sample_user) (db_attendances empty_db))
   \<and> markAttendance sample_env (sample_user\<lparr>isApproved := False\<rparr>) check_in_request empty_db
       = (empty_db, Inl NotApproved)
   \<and> markAttendance sample_env (sample_user\<lparr>isActive := False\<rparr>) check_in_request empty_db
       = (empty_db, Inl AccountInactive)
   \<and> markAttendance sample_env (sample_user\<lparr>organization := None\<rparr>) check_in_request empty_db
       = (empty_db, Inl (500, ''Failed to mark attendance''))
   \<and> markAttendance sample_env sample_user (check_in_request\<lparr>req_note := Some long_note\<rparr>)
         empty_db
       = (empty_db, Inl (400, ''Validation error''))"
proof -
  have 4: "markAttendance sample_env sample_user (check_in_request\<lparr>req_note := Some long_note\<rparr>)
         empty_db
       = (empty_db, Inl (400, ''Validation error''))"
    by (rule markAttendance_gates(1)) (rule sample_requests_valid(3))
  have r: "req_type check_in_request = CheckIn" by (simp add: check_in_request_def)
  have b: "\<not> open_check_in_exists
             (todays_events sample_env (user_id sample_user) (db_attendances empty_db))"
    by (simp add: empty_db_def sample_user_gates sample_today sample_open)
  have 1: "markAttendance sample_env (sample_user\<lparr>isApproved := False\<rparr>) check_in_request empty_db
       = (empty_db, Inl NotApproved)"
    by (rule markAttendance_gates(2)) (simp_all add: sample_requests_valid)
  have 2: "markAttendance sample_env (sample_user\<lparr>isActive := False\<rparr>) check_in_request empty_db
       = (empty_db, Inl AccountInactive)"
    by (rule markAttendance_gates(3)) (simp_all add: sample_requests_valid sample_user_gates)
  have 3: "markAttendance sample_env (sample_user\<lparr>organization := None\<rparr>) check_in_request empty_db
       = (empty_db, Inl (500, ''Failed to mark attendance''))"
    using b
    by (simp add: markAttendance_check_in r sample_requests_valid sample_user_gates
          save_new_attendance_def
          new_Attendance_organization)
  from b 1 2 3 4 show ?thesis by blast
qed

text \<open>
  The sample user checking out at 10:00: refused on an empty ledger, accepted after the
  check-in of 09:00.
\<close>

theorem C2_check_out_witness:
  "nothing_to_check_out (todays_events sample_env (user_id sample_user) (db_attendances empty_db))
   \<and> markAttendance sample_env sample_user check_out_request empty_db
       = (empty_db, Inl NoOpenCheckIn)
   \<and> \<not> nothing_to_check_out
         (todays_events sample_env (user_id sample_user) (db_attendances checked_in_db))
   \<and> (\<exists>ev. fst (markAttendance sample_env sample_user check_out_request checked_in_db)
              = checked_in_db\<lparr>db_attendances := [sample_check_in, ev],
                               db_users := [sample_user\<lparr>lastLogin := Some (at_time 10 0), loginAttempts := Some 0\<rparr>]\<rparr>
          \<and> att_type ev = CheckOut)"
proof -
  have r: "req_type check_out_request = CheckOut"
    by (simp add: check_out_request_def check_in_request_def)
  have a: "nothing_to_check_out
             (todays_events sample_env (user_id sample_user) (db_attendances empty_db))"
    by (simp add: empty_db_def sample_user_gates sample_today sample_open)
  have b: "\<not> nothing_to_check_out
             (todays_events sample_env (user_id sample_user) (db_attendances checked_in_db))"
    by (simp add: checked_in_db_def sample_user_gates sample_today sample_open)
  note T = C2_check_out [OF sample_user_gates(1,2,3) r sample_requests_valid(2), of sample_env]
  have c: "markAttendance sample_env sample_user check_out_request empty_db
       = (empty_db, Inl NoOpenCheckIn)"
    using T [of empty_db, THEN conjunct1, THEN mp, OF a] .
  from T [of checked_in_db, THEN conjunct2, THEN mp, OF b]
  obtain ev where ev: "markAttendance sample_env sample_user check_out_request checked_in_db
       = (checked_in_db\<lparr>db_attendances := db_attendances checked_in_db @ [ev],
                   db_users := updateOne (user_id sample_user)
                              (\<lambda>x. written_defaults sample_user (x\<lparr>lastLogin := Some (env_now sample_env)\<rparr>))
                              (db_users checked_in_db)\<rparr>,
          Inr ev)"
      "att_type ev = CheckOut"
    by blast
  have d: "fst (markAttendance sample_env sample_user check_out_request checked_in_db)
              = checked_in_db\<lparr>db_attendances := [sample_check_in, ev],
                               db_users := [sample_user\<lparr>lastLogin := Some (at_time 10 0), loginAttempts := Some 0\<rparr>]\<rparr>"
    using ev(1)
    by (simp add: checked_in_db_def updateOne_def sample_env_def written_defaults_def
          sample_user_def)
  from a c b d ev(2) show ?thesis by blast
qed

text \<open>
  With an open check-in on the day, where a check-out is in order, the
  request of a user who is not approved, not active or without an organization fails
  and creates nothing, and so does the request of the sample user with a note of 501
  characters.
\<close>

theorem C2_gates_counterexample:
  "\<not> nothing_to_check_out
       (todays_events sample_env (user_id sample_user) (db_attendances checked_in_db))
   \<and> markAttendance sample_env (sample_user\<lparr>isApproved := False\<rparr>) check_out_request checked_in_db
       = (checked_in_db, Inl NotApproved)
   \<and> markAttendance sample_env (sample_user\<lparr>isActive := False\<rparr>) check_out_request checked_in_db
       = (checked_in_db, Inl AccountInactive)
   \<and> markAttendance sample_env (sample_user\<lparr>organization := None\<rparr>) check_out_request
         checked_in_db
       = (checked_in_db, Inl (500, ''Failed to mark attendance''))
   \<and> markAttendance sample_env sample_user (check_out_request\<lparr>req_note := Some long_note\<rparr>)
         checked_in_db
       = (checked_in_db, Inl (400, ''Validation error''))"
proof -
  have 4: "markAttendance sample_env sample_user (check_out_request\<lparr>req_note := Some long_note\<rparr>)
         checked_in_db
       = (checked_in_db, Inl (400, ''Validation error''))"
    by (rule markAttendance_gates(1)) (rule sample_requests_valid(4))
  have r: "req_type check_out_request = CheckOut"
    by (simp add: check_out_request_def check_in_request_def)
  have b: "\<not> nothing_to_check_out
             (todays_events sample_env (user_id sample_user) (db_attendances checked_in_db))"
    by (simp add: checked_in_db_def sample_user_gates sample_today sample_open)
  have 1: "markAttendance sample_env (sample_user\<lparr>isApproved := False\<rparr>) check_out_request
             checked_in_db = (checked_in_db, Inl NotApproved)"
    by (rule markAttendance_gates(2)) (simp_all add: sample_requests_valid)
  have 2: "markAttendance sample_env (sample_user\<lparr>isActive := False\<rparr>) check_out_request
             checked_in_db = (checked_in_db, Inl AccountInactive)"
    by (rule markAttendance_gates(3)) (simp_all add: sample_requests_valid sample_user_gates)
  have 3: "markAttendance sample_env (sample_user\<lparr>organization := None\<rparr>) check_out_request
             checked_in_db = (checked_in_db, Inl (500, ''Failed to mark attendance''))"
    using b
    by (simp add: markAttendance_check_out r sample_requests_valid sample_user_gates
          save_new_attendance_def
          new_Attendance_organization)
  from b 1 2 3 4 show ?thesis by blast
qed

lemma markAttendance_success_check_out:
  assumes t: "req_type r = CheckOut" and s: "markAttendance e u r d = (d', Inr ev)"
  shows "\<not> nothing_to_check_out (todays_events e (user_id u) (db_attendances d))"
    and "ev = (new_Attendance e u r)\<lparr>checkOutTime := Some (checkInTime (new_Attendance e u r)),
                                       att_date := startOfDay (env_tz e) (checkInTime (new_Attendance e u r))\<rparr>"
    and "db_attendances d' = db_attendances d @ [ev]"
    and "markAttendanceSchema_valid r"
proof -
  have v: "markAttendanceSchema_valid r"
    using markAttendance_gates(1) [of r e u d] s by auto
  have ap: "isApproved u"
    using markAttendance_gates(2) [of r u e d] v s by auto
  have ac: "isActive u"
    using markAttendance_gates(3) [of r u e d] v s ap by auto
  note n = markAttendance_check_out [OF ap ac t v, of e d]
  show o: "\<not> nothing_to_check_out (todays_events e (user_id u) (db_attendances d))"
    using n s by auto
  let ?a = "(new_Attendance e u r)\<lparr>checkOutTime := Some (checkInTime (new_Attendance e u r))\<rparr>"
  from n s o have c: "(case save_new_attendance e ?a (db_attendances d) of
             None \<Rightarrow> (d, Inl (500 :: nat, ''Failed to mark attendance''))
           | Some (atts', saved) \<Rightarrow>
               (d\<lparr>db_attendances := atts',
                  db_users := updateOne (user_id u) (\<lambda>x. written_defaults u (x\<lparr>lastLogin := Some (env_now e)\<rparr>)) (db_users d)\<rparr>,
                Inr saved)) = (d', Inr ev)"
    by simp
  then obtain g where g: "att_organization ?a = Some g"
    by (cases "att_organization ?a") (auto simp: save_new_attendance_def)
  from c show "ev = (new_Attendance e u r)\<lparr>checkOutTime := Some (checkInTime (new_Attendance e u r)),
                                       att_date := startOfDay (env_tz e) (checkInTime (new_Attendance e u r))\<rparr>"
    unfolding save_new_attendance_Some [OF g] by simp
  from c show "db_attendances d' = db_attendances d @ [ev]"
    unfolding save_new_attendance_Some [OF g] by auto
  show "markAttendanceSchema_valid r" by (rule v)
qed

text \<open>
  C4.  A check-out request that \<^verbatim>\<open>markAttendance\<close> accepts has passed the request
  schema; it appends one event to the collection and changes no earlier event: the most
  recent check-in of the day is still there as it was.  The new event has the new ObjectId (so it is none of the earlier
  events when that id is fresh) and the type check-out; its \<^verbatim>\<open>checkInTime\<close> is the time
  of the request (\<^verbatim>\<open>offlineTimestamp\<close> for an offline request that carries one), its
  \<^verbatim>\<open>checkOutTime\<close> equals its own \<^verbatim>\<open>checkInTime\<close>, and its \<^verbatim>\<open>workingHours\<close>,
  \<^verbatim>\<open>breakTime\<close> and \<^verbatim>\<open>overtime\<close> are 0.
\<close>

theorem C4_check_out_is_a_separate_event:
  assumes "req_type r = CheckOut" and "markAttendance e u r d = (d', Inr ev)"
  shows "markAttendanceSchema_valid r
       \<and> db_attendances d' = db_attendances d @ [ev]
       \<and> att_id ev = env_newId e
       \<and> att_type ev = CheckOut
       \<and> checkInTime ev = (case (if req_isOffline r then req_offlineTimestamp r else None) of
                             Some (ValidDate t) \<Rightarrow> t | _ \<Rightarrow> env_now e)
       \<and> checkOutTime ev = Some (checkInTime ev)
       \<and> workingHours ev = 0 \<and> breakTime ev = 0 \<and> overtime ev = 0
       \<and> (\<exists>ci. find (\<lambda>a. att_type a = CheckIn)
                   (existingAttendance e (user_id u) (db_attendances d)) = Some ci
                \<and> ci \<in> set (db_attendances d) \<and> ci \<in> set (db_attendances d'))
       \<and> ((\<forall>a \<in> set (db_attendances d). att_id a \<noteq> env_newId e) \<longrightarrow> ev \<notin> set (db_attendances d))"
proof -
  note s = markAttendance_success_check_out [OF assms]
  have f: "att_id ev = env_newId e" "att_type ev = CheckOut"
     "checkInTime ev = (case (if req_isOffline r then req_offlineTimestamp r else None) of
                             Some (ValidDate t) \<Rightarrow> t | _ \<Rightarrow> env_now e)"
     "checkOutTime ev = Some (checkInTime ev)"
     "workingHours ev = 0" "breakTime ev = 0" "overtime ev = 0"
    using assms(1) unfolding s(2) by (simp_all add: new_Attendance_fields)
  from s(1) have "times_of CheckIn (todays_events e (user_id u) (db_attendances d)) \<noteq> []"
    by (auto simp: nothing_to_check_out_def)
  then obtain ci where ci: "find (\<lambda>a. att_type a = CheckIn)
                   (existingAttendance e (user_id u) (db_attendances d)) = Some ci"
    unfolding existingAttendance_def todays_events_def
    using last_of_type_None [of CheckIn "filter (in_today e (user_id u)) (db_attendances d)"]
    by (cases "find (\<lambda>a. att_type a = CheckIn)
                 (sort_key (\<lambda>a. - checkInTime a) (filter (in_today e (user_id u)) (db_attendances d)))")
       auto
  then have m: "ci \<in> set (db_attendances d)"
    unfolding existingAttendance_def by (auto dest: find_sort_key_Some(1))
  then have m': "ci \<in> set (db_attendances d')" by (simp add: s(3))
  have sep: "(\<forall>a \<in> set (db_attendances d). att_id a \<noteq> env_newId e) \<longrightarrow> ev \<notin> set (db_attendances d)"
    using f(1) by auto
  from s(4) s(3) f ci m m' sep show ?thesis by blast
qed

text \<open>
  The sample user checking out at 10:00 after the check-in of 09:00, which keeps its
  absent \<^verbatim>\<open>checkOutTime\<close>.
\<close>

theorem C4_check_out_witness:
  "req_type check_out_request = CheckOut
   \<and> (\<exists>d' ev. markAttendance sample_env sample_user check_out_request checked_in_db = (d', Inr ev)
         \<and> db_attendances d' = [sample_check_in, ev]
         \<and> checkOutTime sample_check_in = None
         \<and> att_type ev = CheckOut
         \<and> checkInTime ev = at_time 10 0
         \<and> checkOutTime ev = Some (at_time 10 0)
         \<and> workingHours ev = 0 \<and> breakTime ev = 0 \<and> overtime ev = 0)"
proof -
  have r: "req_type check_out_request = CheckOut"
    by (simp add: check_out_request_def check_in_request_def)
  have b: "\<not> nothing_to_check_out
             (todays_events sample_env (user_id sample_user) (db_attendances checked_in_db))"
    by (simp add: checked_in_db_def sample_user_gates sample_today sample_open)
  have "\<exists>d' ev. markAttendance sample_env sample_user check_out_request checked_in_db = (d', Inr ev)"
    using b
    by (simp add: markAttendance_check_out r sample_requests_valid sample_user_gates
          save_new_attendance_def
          new_Attendance_organization Let_def)
  then obtain d' ev where
    s: "markAttendance sample_env sample_user check_out_request checked_in_db = (d', Inr ev)"
    by blast
  note T = C4_check_out_is_a_separate_event [OF r s]
  have 1: "db_attendances d' = [sample_check_in, ev]"
    using T by (simp add: checked_in_db_def)
  have 2: "checkInTime ev = at_time 10 0"
    using T by (simp add: check_out_request_def check_in_request_def sample_env_def)
  have 3: "checkOutTime ev = Some (at_time 10 0)"
    using T 2 by simp
  have 4: "att_type ev = CheckOut" "workingHours ev = 0" "breakTime ev = 0" "overtime ev = 0"
    using T by simp_all
  have 5: "checkOutTime sample_check_in = None" by (simp add: sample_check_in_def)
  from r s 1 2 3 4 5 show ?thesis by blast
qed

section \<open>Edits of attendance events by an admin\<close>

text \<open>
  C7.  The specification lets an edit change the notes and the approval status of the
  stored event and has it stamp \<^verbatim>\<open>modifiedBy\<close> and \<^verbatim>\<open>modifiedAt\<close> on it.  The admin of
  organization 3 edits event 1 of that organization with a note and an approval: the
  handler succeeds and the store is what it was.  The four values are set on the
  document object under names that are no paths of \<^verbatim>\<open>AttendanceSchema\<close> (\<^verbatim>\<open>note\<close> for
  \<^verbatim>\<open>notes\<close>, \<^verbatim>\<open>isApproved\<close> for \<^verbatim>\<open>status\<close>, and no path for the stamp), so the save
  writes none of them.
\<close>

theorem C7_edit_is_not_stamped:
  "updateAttendance sample_env admin_a 1 (Some (JString ''late bus'')) (Some (JBool True)) sample_db
   = (sample_db,
      Inr \<lparr>doc_paths = sample_check_in,
           doc_props = [(''note'', JString ''late bus''), (''isApproved'', JBool True),
                        (''modifiedBy'', JObjectId 8), (''modifiedAt'', JDate (at_time 10 0))]\<rparr>)"
  by (simp add: updateAttendance_def Attendance_findById_def sample_db_def sample_check_in_def
        admin_a_def sample_user_def equals_def set_prop_def save_attendance_def sample_env_def
        Let_def)

lemma save_attendance_unchanged:
  assumes "distinct (map att_id atts)" and "a \<in> set atts" and "doc_paths doc = a"
  shows "save_attendance doc atts = atts"
proof -
  have "(if att_id x = att_id a then a else x) = x" if "x \<in> set atts" for x
    using that assms(1,2) by (auto simp: distinct_map inj_on_def)
  then show ?thesis
    unfolding save_attendance_def assms(3) by (simp add: map_idI)
qed

lemma set_prop_paths: "doc_paths (set_prop k v doc) = doc_paths doc"
  by (simp add: set_prop_def)

text \<open>
  With ids that are unique in the collection no edit changes the store at all.
\<close>

lemma updateAttendance_frame:
  assumes "distinct (map att_id (db_attendances d))"
  shows "fst (updateAttendance e actor i note isApprovedB d) = d"
proof (cases "Attendance_findById i (db_attendances d)")
  case None
  then show ?thesis by (simp add: updateAttendance_def)
next
  case (Some a)
  then have m: "a \<in> set (db_attendances d)"
    by (auto simp: Attendance_findById_def find_Some_iff)
  have "save_attendance doc (db_attendances d) = db_attendances d" if "doc_paths doc = a" for doc
    using assms m that by (rule save_attendance_unchanged)
  then show ?thesis
    using Some
    by (simp add: updateAttendance_def Let_def set_prop_paths split: option.splits)
qed

section \<open>Cross-tenant isolation\<close>

text \<open>
  C6.  Let the actor have the role admin and belong to organization \<open>a\<close>.  An admin
  action on a user who does not belong to \<open>a\<close>, the listing of the users of an
  organization other than \<open>a\<close>, and the update or the deletion of an attendance event
  that does not belong to \<open>a\<close> are each answered with status 403 and leave the store
  unchanged, whatever the action, the filters or the edit.
\<close>

theorem C6_cross_tenant_isolation:
  assumes "role actor = Admin" and "organization actor = Some a"
  shows "(User_findById i (db_users d) = Some u \<and> organization u \<noteq> Some a
            \<longrightarrow> performAdminAction e actor i action d
                  = (d, Inl (403, ''You can only manage users in your organization'')))
       \<and> (Organization_findById j (db_organizations d) = Some g \<and> org_id g \<noteq> a
            \<longrightarrow> getOrganizationUsers actor j q d = (d, Inl (403, ''Access denied'')))
       \<and> (Attendance_findById k (db_attendances d) = Some ev \<and> att_organization ev \<noteq> Some a
            \<longrightarrow> updateAttendance e actor k note isApprovedB d
                  = (d, Inl (403, ''You can only modify attendance records in your organization''))
                \<and> deleteAttendance actor k d
                  = (d, Inl (403, ''You can only delete attendance records in your organization'')))"
proof (intro conjI impI)
  assume "User_findById i (db_users d) = Some u \<and> organization u \<noteq> Some a"
  then show "performAdminAction e actor i action d
                  = (d, Inl (403, ''You can only manage users in your organization''))"
    using assms by (auto simp: performAdminAction_def equals_def split: option.splits)
next
  assume "Organization_findById j (db_organizations d) = Some g \<and> org_id g \<noteq> a"
  then show "getOrganizationUsers actor j q d = (d, Inl (403, ''Access denied''))"
    using assms by (auto simp: getOrganizationUsers_def equals_def)
next
  assume h: "Attendance_findById k (db_attendances d) = Some ev \<and> att_organization ev \<noteq> Some a"
  then show "updateAttendance e actor k note isApprovedB d
                  = (d, Inl (403, ''You can only modify attendance records in your organization''))"
    using assms by (auto simp: updateAttendance_def equals_def split: option.splits)
  from h show "deleteAttendance actor k d
                  = (d, Inl (403, ''You can only delete attendance records in your organization''))"
    using assms by (auto simp: deleteAttendance_def equals_def split: option.splits)
qed

lemma sample_lookups:
  "User_findById 9 (db_users sample_db) = Some admin_b"
  "Organization_findById 4 (db_organizations sample_db) = Some org_b"
  "Attendance_findById 1 (db_attendances sample_db) = Some sample_check_in"
  by (simp_all add: User_findById_def Organization_findById_def Attendance_findById_def
        sample_db_def sample_user_def admin_a_def admin_b_def org_a_def org_b_def
        sample_check_in_def)

text \<open>
  The admin of organization 3 against a user and the user list of organization 4, and
  the admin of organization 4 against an event of organization 3.
\<close>

theorem C6_cross_tenant_witness:
  "role admin_a = Admin \<and> organization admin_a = Some 3
   \<and> User_findById 9 (db_users sample_db) = Some admin_b \<and> organization admin_b = Some 4
   \<and> performAdminAction sample_env admin_a 9 Approve sample_db
       = (sample_db, Inl (403, ''You can only manage users in your organization''))
   \<and> Organization_findById 4 (db_organizations sample_db) = Some org_b
   \<and> getOrganizationUsers admin_a 4 no_filter sample_db = (sample_db, Inl (403, ''Access denied''))
   \<and> role admin_b = Admin \<and> organization admin_b = Some 4
   \<and> Attendance_findById 1 (db_attendances sample_db) = Some sample_check_in
   \<and> att_organization sample_check_in = Some 3
   \<and> updateAttendance sample_env admin_b 1 (Some (JString ''x'')) None sample_db
       = (sample_db, Inl (403, ''You can only modify attendance records in your organization''))
   \<and> deleteAttendance admin_b 1 sample_db
       = (sample_db, Inl (403, ''You can only delete attendance records in your organization''))"
proof -
  have a: "role admin_a = Admin" "organization admin_a = Some 3"
    by (simp_all add: admin_a_def sample_user_def)
  have b: "role admin_b = Admin" "organization admin_b = Some 4"
    by (simp_all add: admin_b_def sample_user_def)
  have o: "att_organization sample_check_in = Some 3" by (simp add: sample_check_in_def)
  have t1: "User_findById 9 (db_users sample_db) = Some admin_b \<and> organization admin_b \<noteq> Some 3"
    using sample_lookups(1) b(2) by simp
  have t2: "Organization_findById 4 (db_organizations sample_db) = Some org_b \<and> org_id org_b \<noteq> 3"
    using sample_lookups(2) by (simp add: org_b_def)
  have t3: "Attendance_findById 1 (db_attendances sample_db) = Some sample_check_in
            \<and> att_organization sample_check_in \<noteq> Some 4"
    using sample_lookups(3) o by simp
  note A = C6_cross_tenant_isolation [OF a, where d = sample_db and e = sample_env]
  note B = C6_cross_tenant_isolation [OF b, where d = sample_db and e = sample_env]
  have 1: "performAdminAction sample_env admin_a 9 Approve sample_db
       = (sample_db, Inl (403, ''You can only manage users in your organization''))"
    using A [THEN conjunct1, THEN mp, OF t1] .
  have 2: "getOrganizationUsers admin_a 4 no_filter sample_db
             = (sample_db, Inl (403, ''Access denied''))"
    using A [THEN conjunct2, THEN conjunct1, THEN mp, OF t2] .
  have 3: "updateAttendance sample_env admin_b 1 (Some (JString ''x'')) None sample_db
       = (sample_db, Inl (403, ''You can only modify attendance records in your organization''))
       \<and> deleteAttendance admin_b 1 sample_db
       = (sample_db, Inl (403, ''You can only delete attendance records in your organization''))"
    using B [THEN conjunct2, THEN conjunct2, THEN mp, OF t3] .
  from a b o sample_lookups 1 2 3 show ?thesis by blast
qed

section \<open>Invite codes\<close>

lemma length_chars: "length chars = 36"
  by (simp add: chars_def)

lemma chars_upper_alnum: "list_all is_upper_alnum chars"
  by (simp add: chars_def is_upper_alnum_def)

lemma charAt_draw:
  assumes "0 \<le> r" and "r < 1"
  shows "\<exists>c. charAt chars \<lfloor>r * real (length chars)\<rfloor> = [c] \<and> c \<in> set chars"
proof -
  define k where "k = \<lfloor>r * real (length chars)\<rfloor>"
  have "0 \<le> r * 36" "r * 36 < 36" using assms by simp_all
  then have k: "0 \<le> k" "k < 36" by (simp_all add: k_def length_chars floor_less_iff)
  then have "nat k < length chars" by (simp add: length_chars)
  then have "chars ! nat k \<in> set chars" by (rule nth_mem)
  moreover have "charAt chars k = [chars ! nat k]"
    using k by (simp add: charAt_def length_chars)
  ultimately show ?thesis unfolding k_def by blast
qed

lemma invite_loop_shape:
  assumes "\<forall>j<8. 0 \<le> rnd j \<and> rnd j < 1" and "i \<le> 8"
  shows "length (invite_loop rnd i result) = length result + (8 - i)
       \<and> set (invite_loop rnd i result) \<subseteq> set result \<union> set chars"
  using assms
proof (induction rnd i result rule: invite_loop.induct)
  case (1 rnd i result)
  show ?case
  proof (cases "i < 8")
    case True
    with "1.prems" obtain c where c: "charAt chars \<lfloor>rnd i * real (length chars)\<rfloor> = [c]"
        "c \<in> set chars"
      using charAt_draw [of "rnd i"] by blast
    from True "1.prems" have
      "length (invite_loop rnd (i + 1) (result @ charAt chars \<lfloor>rnd i * real (length chars)\<rfloor>))
         = length (result @ charAt chars \<lfloor>rnd i * real (length chars)\<rfloor>) + (8 - (i + 1))
       \<and> set (invite_loop rnd (i + 1) (result @ charAt chars \<lfloor>rnd i * real (length chars)\<rfloor>))
         \<subseteq> set (result @ charAt chars \<lfloor>rnd i * real (length chars)\<rfloor>) \<union> set chars"
      by (intro "1.IH") auto
    with True c show ?thesis
      by (subst (1 2) invite_loop.simps) (auto simp: c)
  next
    case False
    with "1.prems" have "i = 8" by simp
    then show ?thesis by (subst (1 2) invite_loop.simps) simp
  qed
qed

lemma generated_code_shape:
  assumes "\<forall>j<8. 0 \<le> rnd j \<and> rnd j < 1"
  shows "length (fst (generateInviteCode rnd g)) = 8"
    and "list_all is_upper_alnum (fst (generateInviteCode rnd g))"
    and "inviteCode (snd (generateInviteCode rnd g)) = Some (fst (generateInviteCode rnd g))"
proof -
  note s = invite_loop_shape [OF assms, of 0 "[]"]
  from s show "length (fst (generateInviteCode rnd g)) = 8"
    by (simp add: generateInviteCode_def Let_def)
  from s have "set (invite_loop rnd 0 []) \<subseteq> set chars" by simp
  with chars_upper_alnum show "list_all is_upper_alnum (fst (generateInviteCode rnd g))"
    by (auto simp: generateInviteCode_def Let_def list_all_iff)
  show "inviteCode (snd (generateInviteCode rnd g)) = Some (fst (generateInviteCode rnd g))"
    by (simp add: generateInviteCode_def Let_def)
qed

lemma find_unique:
  assumes "g \<in> set xs" and "P g" and "\<And>x. x \<in> set xs \<Longrightarrow> P x \<Longrightarrow> x = g"
  shows "find P xs = Some g"
proof (cases "find P xs")
  case None
  with assms(1,2) show ?thesis by (auto simp: find_None_iff)
next
  case (Some x)
  then have "x \<in> set xs" "P x" by (auto simp: find_Some_iff)
  with assms(3) Some show ?thesis by simp
qed

lemma createOrganization_round_trip:
  assumes "createOrganization e rnd actor v d = (d', Inr g)"
  shows "\<exists>code. inviteCode g = Some code
           \<and> getOrganizationByInviteCode code d' = Inr (select_public g)"
proof -
  let ?g0 = "\<lparr>org_id = env_newId e, org_name = cr_name v, org_type = cr_type v,
                 org_description = cr_description v, inviteCode = None, org_isActive = True,
                 createdBy = Some (user_id actor)\<rparr>"
  let ?g1 = "snd (generateInviteCode rnd ?g0)"
  from assms have n: "\<not> list_ex (\<lambda>x. inviteCode x = inviteCode ?g1) (db_organizations d)"
    and g: "g = ?g1" and d': "d' = d\<lparr>db_organizations := db_organizations d @ [?g1]\<rparr>"
    by (auto simp: createOrganization_def Let_def split: option.splits if_splits)
  have c: "inviteCode ?g1 = Some (invite_loop rnd 0 [])" "org_isActive ?g1"
    by (simp_all add: generateInviteCode_def Let_def)
  have "find (\<lambda>x. inviteCode x = Some (invite_loop rnd 0 []) \<and> org_isActive x)
          (db_organizations d @ [?g1]) = Some ?g1"
  proof (rule find_unique)
    show "?g1 \<in> set (db_organizations d @ [?g1])" by simp
    show "inviteCode ?g1 = Some (invite_loop rnd 0 []) \<and> org_isActive ?g1" using c by simp
    fix x assume "x \<in> set (db_organizations d @ [?g1])"
      and "inviteCode x = Some (invite_loop rnd 0 []) \<and> org_isActive x"
    with n c(1) show "x = ?g1" by (auto simp: list_ex_iff)
  qed
  then have "getOrganizationByInviteCode (invite_loop rnd 0 []) d' = Inr (select_public ?g1)"
    by (simp add: getOrganizationByInviteCode_def d')
  with c(1) g show ?thesis by simp
qed

text \<open>
  C9.  When an active organization of the collection is the only one that stores an
  invite code (the index on \<^verbatim>\<open>inviteCode\<close> is unique), \<^verbatim>\<open>getOrganizationByInviteCode\<close> of
  that code answers with that organization.  When no organization, or only inactive
  ones, store a code, it fails with \<open>InvalidInviteCode\<close>.  When every draw of the random
  source lies in \<open>[0, 1)\<close>, \<^verbatim>\<open>generateInviteCode\<close> returns 8 characters, each an
  upper-case letter or a digit, and stores them as the invite code.  And the code of an
  organization that \<^verbatim>\<open>createOrganization\<close> has just created resolves to that
  organization.
\<close>

theorem C9_invite_code:
  shows "(g \<in> set (db_organizations d) \<and> org_isActive g \<and> inviteCode g = Some code
            \<and> (\<forall>x \<in> set (db_organizations d). inviteCode x = Some code \<longrightarrow> x = g)
          \<longrightarrow> getOrganizationByInviteCode code d = Inr (select_public g)
              \<and> pub_id (select_public g) = org_id g)
       \<and> ((\<forall>x \<in> set (db_organizations d). inviteCode x = Some code \<longrightarrow> \<not> org_isActive x)
          \<longrightarrow> getOrganizationByInviteCode code d = Inl InvalidInviteCode)
       \<and> ((\<forall>j<8. 0 \<le> rnd j \<and> rnd j < 1)
          \<longrightarrow> length (fst (generateInviteCode rnd g0)) = 8
              \<and> list_all is_upper_alnum (fst (generateInviteCode rnd g0))
              \<and> inviteCode (snd (generateInviteCode rnd g0))
                  = Some (fst (generateInviteCode rnd g0)))
       \<and> (createOrganization e rnd actor v d = (d', Inr g')
          \<longrightarrow> (\<exists>code'. inviteCode g' = Some code'
                 \<and> getOrganizationByInviteCode code' d' = Inr (select_public g')))"
proof (intro conjI impI)
  assume h: "g \<in> set (db_organizations d) \<and> org_isActive g \<and> inviteCode g = Some code
            \<and> (\<forall>x \<in> set (db_organizations d). inviteCode x = Some code \<longrightarrow> x = g)"
  have "find (\<lambda>x. inviteCode x = Some code \<and> org_isActive x) (db_organizations d) = Some g"
    by (rule find_unique) (use h in auto)
  then show "getOrganizationByInviteCode code d = Inr (select_public g)"
    by (simp add: getOrganizationByInviteCode_def)
  show "pub_id (select_public g) = org_id g" by (simp add: select_public_def)
next
  assume "\<forall>x \<in> set (db_organizations d). inviteCode x = Some code \<longrightarrow> \<not> org_isActive x"
  then have "find (\<lambda>x. inviteCode x = Some code \<and> org_isActive x) (db_organizations d) = None"
    by (auto simp: find_None_iff)
  then show "getOrganizationByInviteCode code d = Inl InvalidInviteCode"
    by (simp add: getOrganizationByInviteCode_def)
next
  assume r: "\<forall>j<8. 0 \<le> rnd j \<and> rnd j < 1"
  show "length (fst (generateInviteCode rnd g0)) = 8"
    by (rule generated_code_shape(1) [OF r])
  show "list_all is_upper_alnum (fst (generateInviteCode rnd g0))"
    by (rule generated_code_shape(2) [OF r])
  show "inviteCode (snd (generateInviteCode rnd g0)) = Some (fst (generateInviteCode rnd g0))"
    by (rule generated_code_shape(3) [OF r])
next
  assume "createOrganization e rnd actor v d = (d', Inr g')"
  then show "\<exists>code'. inviteCode g' = Some code'
                 \<and> getOrganizationByInviteCode code' d' = Inr (select_public g')"
    by (rule createOrganization_round_trip)
qed


lemma half_code: "invite_loop half 0 [] = ''SSSSSSSS''"
  by (simp add: invite_loop.simps half_def chars_def charAt_def)

text \<open>
  The codes of the active and of the inactive sample organization, an unknown code, and
  the code generated from the constant random source.
\<close>

theorem C9_invite_code_witness:
  "org_a \<in> set (db_organizations sample_db) \<and> org_isActive org_a
   \<and> inviteCode org_a = Some ''ACME0001''
   \<and> getOrganizationByInviteCode ''ACME0001'' sample_db = Inr (select_public org_a)
   \<and> getOrganizationByInviteCode ''BOLT0002'' sample_db = Inl InvalidInviteCode
   \<and> getOrganizationByInviteCode ''NOSUCH00'' sample_db = Inl InvalidInviteCode
   \<and> length (fst (generateInviteCode half org_a)) = 8
   \<and> list_all is_upper_alnum (fst (generateInviteCode half org_a))
   \<and> (\<exists>d' g' code'. createOrganization sample_env half admin_a sample_create sample_db
                       = (d', Inr g')
          \<and> inviteCode g' = Some code'
          \<and> getOrganizationByInviteCode code' d' = Inr (select_public g'))"
proof -
  have m: "org_a \<in> set (db_organizations sample_db)" "org_isActive org_a"
      "inviteCode org_a = Some ''ACME0001''"
    by (simp_all add: sample_db_def org_a_def)
  have u: "\<forall>x \<in> set (db_organizations sample_db). inviteCode x = Some ''ACME0001'' \<longrightarrow> x = org_a"
    by (simp add: sample_db_def org_b_def)
  have i: "\<forall>x \<in> set (db_organizations sample_db). inviteCode x = Some ''BOLT0002''
             \<longrightarrow> \<not> org_isActive x"
    by (simp add: sample_db_def org_a_def org_b_def)
  have n: "\<forall>x \<in> set (db_organizations sample_db). inviteCode x = Some ''NOSUCH00''
             \<longrightarrow> \<not> org_isActive x"
    by (simp add: sample_db_def org_a_def org_b_def)
  have r: "\<forall>j<8. 0 \<le> half j \<and> half j < 1" by (simp add: half_def)
  have "\<exists>d' g'. createOrganization sample_env half admin_a sample_create sample_db = (d', Inr g')"
    by (simp add: createOrganization_def generateInviteCode_def half_code Let_def
          sample_create_def sample_db_def org_a_def org_b_def)
  then obtain d' g' where
    c: "createOrganization sample_env half admin_a sample_create sample_db = (d', Inr g')"
    by blast
  note A = C9_invite_code [where d = sample_db and g = org_a and code = "''ACME0001''"
      and rnd = half and ?g0.0 = org_a and e = sample_env and actor = admin_a
      and v = sample_create and d' = d' and g' = g']
  note B = C9_invite_code [where d = sample_db and code = "''BOLT0002''"]
  note N = C9_invite_code [where d = sample_db and code = "''NOSUCH00''"]
  have 1: "getOrganizationByInviteCode ''ACME0001'' sample_db = Inr (select_public org_a)"
    using A [THEN conjunct1] m u by blast
  have 2: "getOrganizationByInviteCode ''BOLT0002'' sample_db = Inl InvalidInviteCode"
    using B [THEN conjunct2, THEN conjunct1, THEN mp, OF i] .
  have 3: "getOrganizationByInviteCode ''NOSUCH00'' sample_db = Inl InvalidInviteCode"
    using N [THEN conjunct2, THEN conjunct1, THEN mp, OF n] .
  have 4: "length (fst (generateInviteCode half org_a)) = 8
           \<and> list_all is_upper_alnum (fst (generateInviteCode half org_a))"
    using A [THEN conjunct2, THEN conjunct2, THEN conjunct1, THEN mp, OF r] by blast
  have 5: "\<exists>code'. inviteCode g' = Some code'
             \<and> getOrganizationByInviteCode code' d' = Inr (select_public g')"
    using A [THEN conjunct2, THEN conjunct2, THEN conjunct2, THEN mp, OF c] .
  from m 1 2 3 4 5 c show ?thesis by blast
qed

end
